theory Spec2Isabelle
  imports Main
begin

section \<open>Machine integers\<close>

text \<open>
  The HAL is built for a 32-bit ARM target: \<open>int\<close>, \<open>unsigned int\<close> and \<open>size_t\<close> are
  32 bits wide (the source itself hands a \<open>size_t *\<close> to \<open>pcm_get_htimestamp\<close>, which
  expects an \<open>unsigned int *\<close>), \<open>uint64_t\<close> and \<open>int64_t\<close> are 64 bits wide.
  Values are kept as \<open>int\<close>; every unsigned operation and every conversion of the source
  is written out with the wrap-around it has. Arithmetic that the source performs on
  plain \<open>int\<close> variables is left unwrapped (signed overflow is undefined in C).
\<close>

definition u32 :: "int \<Rightarrow> int" where
  "u32 x = x mod 2 ^ 32"

definition s32 :: "int \<Rightarrow> int" where
  "s32 x = (x + 2 ^ 31) mod 2 ^ 32 - 2 ^ 31"

definition u64 :: "int \<Rightarrow> int" where
  "u64 x = x mod 2 ^ 64"

definition s64 :: "int \<Rightarrow> int" where
  "s64 x = (x + 2 ^ 63) mod 2 ^ 64 - 2 ^ 63"

section \<open>Constants and stream configurations\<close>

definition OUT_PERIOD_SIZE :: int where "OUT_PERIOD_SIZE = 1024"
definition OUT_SHORT_PERIOD_COUNT :: int where "OUT_SHORT_PERIOD_COUNT = 2"
definition OUT_LONG_PERIOD_COUNT :: int where "OUT_LONG_PERIOD_COUNT = 4"
definition OUT_SAMPLING_RATE :: int where "OUT_SAMPLING_RATE = 44100"

definition IN_PERIOD_SIZE :: int where "IN_PERIOD_SIZE = 1024"
definition IN_PERIOD_SIZE_LOW_LATENCY :: int where "IN_PERIOD_SIZE_LOW_LATENCY = 512"
definition IN_PERIOD_COUNT :: int where "IN_PERIOD_COUNT = 4"
definition IN_SAMPLING_RATE :: int where "IN_SAMPLING_RATE = 44100"

definition MIN_WRITE_SLEEP_US :: int where "MIN_WRITE_SLEEP_US = 2000"
definition MAX_WRITE_SLEEP_US :: int where
  "MAX_WRITE_SLEEP_US =
     (OUT_PERIOD_SIZE * OUT_SHORT_PERIOD_COUNT * 1000000) div OUT_SAMPLING_RATE"

text \<open>The errno values of the Linux target, as the source negates them.\<close>

definition ENOMEM :: int where "ENOMEM = 12"
definition ENODEV :: int where "ENODEV = 19"
definition EINVAL :: int where "EINVAL = 22"
definition EPIPE :: int where "EPIPE = 32"
definition ENOSYS :: int where "ENOSYS = 38"

text \<open>\<open>audio_mode_t\<close>, channel masks and frame sizes of \<open>system/audio.h\<close>.\<close>

definition AUDIO_MODE_NORMAL :: int where "AUDIO_MODE_NORMAL = 0"
definition AUDIO_MODE_IN_CALL :: int where "AUDIO_MODE_IN_CALL = 2"
definition AUDIO_CHANNEL_OUT_STEREO :: int where "AUDIO_CHANNEL_OUT_STEREO = 3"
definition AUDIO_CHANNEL_IN_MONO :: int where "AUDIO_CHANNEL_IN_MONO = 16"
definition AUDIO_FORMAT_PCM_16_BIT :: int where "AUDIO_FORMAT_PCM_16_BIT = 1"
definition AUDIO_DEVICE_NONE :: int where "AUDIO_DEVICE_NONE = 0"

datatype pcm_format = PCM_FORMAT_S16_LE

record pcm_config =
  channels :: int
  rate :: int
  period_size :: int
  period_count :: int
  format :: pcm_format
  start_threshold :: int
  stop_threshold :: int

definition pcm_config_out :: pcm_config where
  "pcm_config_out =
     \<lparr> channels = 2, rate = OUT_SAMPLING_RATE, period_size = OUT_PERIOD_SIZE,
       period_count = OUT_LONG_PERIOD_COUNT, format = PCM_FORMAT_S16_LE,
       start_threshold = OUT_PERIOD_SIZE * OUT_SHORT_PERIOD_COUNT, stop_threshold = 0 \<rparr>"

definition pcm_config_in :: pcm_config where
  "pcm_config_in =
     \<lparr> channels = 2, rate = IN_SAMPLING_RATE, period_size = IN_PERIOD_SIZE,
       period_count = IN_PERIOD_COUNT, format = PCM_FORMAT_S16_LE,
       start_threshold = 1, stop_threshold = IN_PERIOD_SIZE * IN_PERIOD_COUNT \<rparr>"

definition pcm_config_in_low_latency :: pcm_config where
  "pcm_config_in_low_latency =
     \<lparr> channels = 2, rate = IN_SAMPLING_RATE, period_size = IN_PERIOD_SIZE_LOW_LATENCY,
       period_count = IN_PERIOD_COUNT, format = PCM_FORMAT_S16_LE,
       start_threshold = 1,
       stop_threshold = IN_PERIOD_SIZE_LOW_LATENCY * IN_PERIOD_COUNT \<rparr>"

text \<open>
  tinyalsa's view of a configuration: the byte size of a number of frames (16-bit samples)
  and the size of the kernel buffer in frames.
\<close>

definition pcm_frames_to_bytes :: "pcm_config \<Rightarrow> int \<Rightarrow> int" where
  "pcm_frames_to_bytes cfg frames = u32 (frames * (channels cfg * 2))"

definition pcm_get_buffer_size :: "pcm_config \<Rightarrow> int" where
  "pcm_get_buffer_size cfg = u32 (period_size cfg * period_count cfg)"

text \<open>Stereo 16-bit output frames are 4 bytes, mono 16-bit input frames 2 bytes.\<close>

definition audio_stream_out_frame_size :: int where
  "audio_stream_out_frame_size = 4"

definition audio_stream_in_frame_size :: int where
  "audio_stream_in_frame_size = 2"

section \<open>Device, streams and the hardware trace\<close>

datatype out_buffer_type = OUT_BUFFER_TYPE_UNKNOWN | OUT_BUFFER_TYPE_SHORT | OUT_BUFFER_TYPE_LONG

text \<open>
  Streams live in a store addressed by natural numbers; a pointer is an address or
  \<open>None\<close> for \<open>NULL\<close>. PCM handles, resamplers and sample buffers are addresses too:
  what the collaborators do with them is recorded in the trace, sample contents are not
  part of the model. Each \<open>pthread_mutex_t lock\<close> is a flag that tells whether the mutex
  is held; the counters \<open>lock_cnt\<close> are the source's own bookkeeping.
\<close>

record audio_device =
  mode :: int
  out_device :: int
  in_device :: int
  in_source :: int
  standby_d :: bool
  mic_mute :: bool
  screen_off :: bool
  lock_d :: bool
  lock_cnt_d :: int
  active_out :: "nat option"
  active_in :: "nat option"

record stream_out =
  pcm_o :: "nat option"
  pcm_config_o :: "pcm_config option"
  standby_o :: bool
  written :: int
  resampler_o :: "nat option"
  buffer_o :: "nat option"
  buffer_frames :: int
  write_threshold :: int
  cur_write_threshold :: int
  buffer_type :: out_buffer_type
  sleep_req_o :: bool
  lock_o :: bool
  lock_cnt_o :: int

record stream_in =
  pcm_i :: "nat option"
  pcm_config_i :: pcm_config
  standby_i :: bool
  requested_rate :: int
  resampler_i :: "nat option"
  buffer_i :: "nat option"
  buffer_size :: int
  frames_in :: int
  read_status :: int
  sleep_req_i :: bool
  lock_i :: bool
  lock_cnt_i :: int

text \<open>Every call into the PCM driver, the resampler, the allocator, the mixer and \<open>usleep\<close>.\<close>

datatype hw_event =
    PcmOpenOut nat bool
  | PcmOpenIn nat bool
  | PcmClose "nat option"
  | PcmWrite "nat option" int
  | PcmRead "nat option" int
  | CreateResampler int int int "nat option"
  | ReleaseResampler nat
  | Malloc int "nat option"
  | Free nat
  | Usleep int
  | SelectDevices int int
  | SelectInputSource int

text \<open>
  A call that dereferences \<open>NULL\<close> or divides by zero ends the process, and a call that
  requests a mutex which is held never returns: calls run one after the other, so no
  other thread is there to release it. \<open>Unfinished\<close> stands for a read whose resampler
  description ended early. The first such event is recorded in the field \<open>halted\<close>;
  an API call whose state is halted has the fault for its result, and what the
  definitions compute past that point is not observed.
\<close>

datatype fault = NullDeref | DivByZero | Deadlock | Unfinished

record state =
  dev :: audio_device
  outs :: "nat \<Rightarrow> stream_out"
  ins :: "nat \<Rightarrow> stream_in"
  events :: "hw_event list"
  halted :: "fault option"

definition halt :: "fault \<Rightarrow> state \<Rightarrow> state" where
  "halt f s = (if halted s = None then s\<lparr>halted := Some f\<rparr> else s)"

definition returned :: "state \<times> 'a \<Rightarrow> fault + state \<times> 'a" where
  "returned r = (case halted (fst r) of None \<Rightarrow> Inr r | Some f \<Rightarrow> Inl f)"

definition finished :: "state \<Rightarrow> fault + state" where
  "finished s = (case halted s of None \<Rightarrow> Inr s | Some f \<Rightarrow> Inl f)"

definition emit :: "hw_event \<Rightarrow> state \<Rightarrow> state" where
  "emit e s = s\<lparr>events := events s @ [e]\<rparr>"

definition upd_dev :: "(audio_device \<Rightarrow> audio_device) \<Rightarrow> state \<Rightarrow> state" where
  "upd_dev f s = s\<lparr>dev := f (dev s)\<rparr>"

definition upd_out :: "nat \<Rightarrow> (stream_out \<Rightarrow> stream_out) \<Rightarrow> state \<Rightarrow> state" where
  "upd_out p f s = s\<lparr>outs := (outs s)(p := f (outs s p))\<rparr>"

definition upd_in :: "nat \<Rightarrow> (stream_in \<Rightarrow> stream_in) \<Rightarrow> state \<Rightarrow> state" where
  "upd_in p f s = s\<lparr>ins := (ins s)(p := f (ins s p))\<rparr>"

subsection \<open>Locks\<close>

text \<open>
  \<open>pthread_mutex_lock\<close> on a mutex that is held does not return; on a free mutex it
  takes it, and the source counts. Unlocking counts down and releases the mutex.
\<close>

definition out_lock :: "nat \<Rightarrow> state \<Rightarrow> state" where
  "out_lock p s =
     (if lock_o (outs s p) then halt Deadlock s
      else upd_out p (\<lambda>out. out\<lparr>lock_o := True, lock_cnt_o := lock_cnt_o out + 1\<rparr>) s)"

definition out_unlock :: "nat \<Rightarrow> state \<Rightarrow> state" where
  "out_unlock p = upd_out p (\<lambda>out. out\<lparr>lock_cnt_o := lock_cnt_o out - 1, lock_o := False\<rparr>)"

definition in_lock :: "nat \<Rightarrow> state \<Rightarrow> state" where
  "in_lock p s =
     (if lock_i (ins s p) then halt Deadlock s
      else upd_in p (\<lambda>i. i\<lparr>lock_i := True, lock_cnt_i := lock_cnt_i i + 1\<rparr>) s)"

definition in_unlock :: "nat \<Rightarrow> state \<Rightarrow> state" where
  "in_unlock p = upd_in p (\<lambda>i. i\<lparr>lock_cnt_i := lock_cnt_i i - 1, lock_i := False\<rparr>)"

definition adev_lock :: "state \<Rightarrow> state" where
  "adev_lock s =
     (if lock_d (dev s) then halt Deadlock s
      else upd_dev (\<lambda>d. d\<lparr>lock_d := True, lock_cnt_d := lock_cnt_d d + 1\<rparr>) s)"

definition adev_unlock :: "state \<Rightarrow> state" where
  "adev_unlock = upd_dev (\<lambda>d. d\<lparr>lock_cnt_d := lock_cnt_d d - 1, lock_d := False\<rparr>)"

section \<open>Standby\<close>

definition do_out_standby :: "nat \<Rightarrow> state \<Rightarrow> state" where
  "do_out_standby p s =
     (if \<not> standby_o (outs s p) then
        let s1 = emit (PcmClose (pcm_o (outs s p))) s;
            s2 = upd_out p (\<lambda>out. out\<lparr>pcm_o := None\<rparr>) s1;
            s3 = upd_dev (\<lambda>d. d\<lparr>active_out := None\<rparr>) s2;
            s4 = (case resampler_o (outs s3 p) of
                    Some r \<Rightarrow> upd_out p (\<lambda>out. out\<lparr>resampler_o := None\<rparr>)
                                (emit (ReleaseResampler r) s3)
                  | None \<Rightarrow> s3);
            s5 = (case buffer_o (outs s4 p) of
                    Some b \<Rightarrow> upd_out p (\<lambda>out. out\<lparr>buffer_o := None\<rparr>) (emit (Free b) s4)
                  | None \<Rightarrow> s4)
        in upd_out p (\<lambda>out. out\<lparr>standby_o := True\<rparr>) s5
      else s)"

definition do_in_standby :: "nat \<Rightarrow> state \<Rightarrow> state" where
  "do_in_standby p s =
     (if \<not> standby_i (ins s p) then
        let s1 = emit (PcmClose (pcm_i (ins s p))) s;
            s2 = upd_in p (\<lambda>i. i\<lparr>pcm_i := None\<rparr>) s1;
            s3 = upd_dev (\<lambda>d. d\<lparr>active_in := None\<rparr>) s2;
            s4 = (case resampler_i (ins s3 p) of
                    Some r \<Rightarrow> upd_in p (\<lambda>i. i\<lparr>resampler_i := None\<rparr>)
                                (emit (ReleaseResampler r) s3)
                  | None \<Rightarrow> s3);
            s5 = (case buffer_i (ins s4 p) of
                    Some b \<Rightarrow> upd_in p (\<lambda>i. i\<lparr>buffer_i := None\<rparr>) (emit (Free b) s4)
                  | None \<Rightarrow> s4)
        in upd_in p (\<lambda>i. i\<lparr>standby_i := True\<rparr>) s5
      else s)"

text \<open>The API entry points: request the stream's attention, take both locks, stand by.\<close>

definition out_standby :: "nat \<Rightarrow> state \<Rightarrow> fault + state \<times> int" where
  "out_standby p s = returned
     (let s1 = upd_out p (\<lambda>out. out\<lparr>sleep_req_o := True\<rparr>) s;
          s2 = out_lock p s1;
          s3 = upd_out p (\<lambda>out. out\<lparr>sleep_req_o := False\<rparr>) s2;
          s4 = adev_lock s3;
          s5 = do_out_standby p s4;
          s6 = adev_unlock s5
      in (out_unlock p s6, 0))"

definition in_standby :: "nat \<Rightarrow> state \<Rightarrow> fault + state \<times> int" where
  "in_standby p s = returned
     (let s1 = upd_in p (\<lambda>i. i\<lparr>sleep_req_i := True\<rparr>) s;
          s2 = in_lock p s1;
          s3 = upd_in p (\<lambda>i. i\<lparr>sleep_req_i := False\<rparr>) s2;
          s4 = adev_lock s3;
          s5 = do_in_standby p s4;
          s6 = adev_unlock s5
      in (in_unlock p s6, 0))"

section \<open>Leaving standby\<close>

text \<open>
  What the environment answers during a start. tinyalsa's \<open>pcm_open\<close> never returns
  \<open>NULL\<close>: a failed open yields a handle that is not ready, so the \<open>NULL\<close> side of the
  source's test \<open>pcm && !pcm_is_ready(pcm)\<close> has no case. \<open>create_resampler\<close> stores a
  resampler on success and leaves the field alone on failure; \<open>malloc\<close> may return
  \<open>NULL\<close>.
\<close>

datatype pcm_open_result = PcmNotReady nat | PcmReady nat

record start_env =
  pcm_open :: pcm_open_result
  create_resampler :: "nat option"
  malloc :: "nat option"

definition out_get_sample_rate :: int where
  "out_get_sample_rate = rate pcm_config_out"

definition in_get_sample_rate :: "stream_in \<Rightarrow> int" where
  "in_get_sample_rate i = requested_rate i"

text \<open>The size of the intermediate conversion buffer, in \<open>unsigned int\<close> arithmetic.\<close>

definition out_buffer_frames :: "int \<Rightarrow> int \<Rightarrow> int \<Rightarrow> int" where
  "out_buffer_frames ps hw_rate stream_rate = u32 (u32 (ps * hw_rate) div stream_rate + 1)"

text \<open>
  \<open>start_output_stream\<close> stores \<open>&pcm_config_out\<close> in the stream before it opens the
  handle, so \<open>out->pcm_config->rate\<close> is the rate of \<open>pcm_config_out\<close> in the test
  that follows.
\<close>

definition start_output_stream :: "start_env \<Rightarrow> nat \<Rightarrow> state \<Rightarrow> state \<times> int" where
  "start_output_stream env p s =
     (let s1 = upd_out p (\<lambda>out. out\<lparr>pcm_config_o := Some pcm_config_out,
                                    buffer_type := OUT_BUFFER_TYPE_UNKNOWN\<rparr>) s
      in case pcm_open env of
           PcmNotReady h \<Rightarrow>
             (emit (PcmClose (Some h))
                (upd_out p (\<lambda>out. out\<lparr>pcm_o := Some h\<rparr>) (emit (PcmOpenOut h False) s1)),
              - ENOMEM)
         | PcmReady h \<Rightarrow>
             let s2 = upd_out p (\<lambda>out. out\<lparr>pcm_o := Some h\<rparr>) (emit (PcmOpenOut h True) s1);
                 s3 = (if out_get_sample_rate \<noteq> rate pcm_config_out then
                         let t1 = emit (CreateResampler out_get_sample_rate (rate pcm_config_out)
                                          (channels pcm_config_out) (create_resampler env)) s2;
                             t2 = (case create_resampler env of
                                     Some r \<Rightarrow> upd_out p (\<lambda>out. out\<lparr>resampler_o := Some r\<rparr>) t1
                                   | None \<Rightarrow> t1);
                             bf = out_buffer_frames (period_size pcm_config_out)
                                    (rate pcm_config_out) out_get_sample_rate;
                             t3 = upd_out p (\<lambda>out. out\<lparr>buffer_frames := bf\<rparr>) t2;
                             t4 = emit (Malloc (pcm_frames_to_bytes pcm_config_out bf) (malloc env)) t3
                         in upd_out p (\<lambda>out. out\<lparr>buffer_o := malloc env\<rparr>) t4
                       else s2)
             in (upd_dev (\<lambda>d. d\<lparr>active_out := Some p\<rparr>) s3, 0))"

definition start_input_stream :: "start_env \<Rightarrow> nat \<Rightarrow> state \<Rightarrow> state \<times> int" where
  "start_input_stream env p s =
     (case pcm_open env of
        PcmNotReady h \<Rightarrow>
          (emit (PcmClose (Some h))
             (upd_in p (\<lambda>i. i\<lparr>pcm_i := Some h\<rparr>) (emit (PcmOpenIn h False) s)),
           - ENOMEM)
      | PcmReady h \<Rightarrow>
          let s1 = upd_in p (\<lambda>i. i\<lparr>pcm_i := Some h\<rparr>) (emit (PcmOpenIn h True) s);
              cfg = pcm_config_i (ins s1 p);
              s2 = (if in_get_sample_rate (ins s1 p) \<noteq> rate cfg then
                      let t1 = emit (CreateResampler (rate cfg) (in_get_sample_rate (ins s1 p)) 1
                                       (create_resampler env)) s1
                      in (case create_resampler env of
                            Some r \<Rightarrow> upd_in p (\<lambda>i. i\<lparr>resampler_i := Some r\<rparr>) t1
                          | None \<Rightarrow> t1)
                    else s1);
              s3 = upd_in p (\<lambda>i. i\<lparr>buffer_size := pcm_frames_to_bytes cfg (period_size cfg)\<rparr>) s2;
              s4 = emit (Malloc (buffer_size (ins s3 p)) (malloc env)) s3;
              s5 = upd_in p (\<lambda>i. i\<lparr>buffer_i := malloc env, frames_in := 0\<rparr>) s4
          in (upd_dev (\<lambda>d. d\<lparr>active_in := Some p\<rparr>) s5, 0))"

section \<open>The buffer provider\<close>

text \<open>
  A \<open>resampler_buffer\<close>: \<open>raw\<close> is the view pointer, given by its offset (in 16-bit
  samples) from the start of the stream's raw buffer, \<open>None\<close> for \<open>NULL\<close>. The offset
  is computed in \<open>unsigned int\<close> arithmetic; added to a raw buffer that is itself
  \<open>NULL\<close> it yields \<open>NULL\<close> when its byte value is zero in 32 bits. The provider is
  addressed through its stream, so the \<open>NULL\<close> checks on the two arguments have no
  case. The argument \<open>rd\<close> is the status that \<open>pcm_read\<close> returns should the provider
  read. After a successful read of a stereo configuration the right channel is
  discarded in place, which dereferences the raw buffer as soon as the period has more
  than one frame.
\<close>

record resampler_buffer =
  raw :: "int option"
  frame_count :: int

definition get_next_buffer ::
    "int \<Rightarrow> nat \<Rightarrow> resampler_buffer \<Rightarrow> state \<Rightarrow> state \<times> resampler_buffer \<times> int" where
  "get_next_buffer rd p buf s =
     (if pcm_i (ins s p) = None then
        (upd_in p (\<lambda>i. i\<lparr>read_status := - ENODEV\<rparr>) s,
         buf\<lparr>raw := None, frame_count := 0\<rparr>, - ENODEV)
      else if frames_in (ins s p) = 0 \<and> rd \<noteq> 0 then
        (upd_in p (\<lambda>i. i\<lparr>read_status := rd\<rparr>)
           (emit (PcmRead (pcm_i (ins s p)) (buffer_size (ins s p))) s),
         buf\<lparr>raw := None, frame_count := 0\<rparr>, rd)
      else
        let s1 = (if frames_in (ins s p) = 0 then
                    let t = upd_in p (\<lambda>i. i\<lparr>read_status := rd,
                                            frames_in := period_size (pcm_config_i i)\<rparr>)
                              (emit (PcmRead (pcm_i (ins s p)) (buffer_size (ins s p))) s)
                    in if channels (pcm_config_i (ins t p)) = 2 \<and> 1 < frames_in (ins t p)
                          \<and> buffer_i (ins t p) = None
                       then halt NullDeref t else t
                  else s);
            i1 = ins s1 p;
            fc = (if frame_count buf > frames_in i1 then frames_in i1 else frame_count buf);
            off = u32 (period_size (pcm_config_i i1) - frames_in i1)
        in (s1,
            buf\<lparr>raw := (if buffer_i i1 = None \<and> u32 (2 * off) = 0 then None else Some off),
                frame_count := fc\<rparr>,
            read_status i1))"

definition release_buffer :: "nat \<Rightarrow> resampler_buffer \<Rightarrow> state \<Rightarrow> state" where
  "release_buffer p buf s =
     upd_in p (\<lambda>i. i\<lparr>frames_in := u32 (frames_in i - frame_count buf)\<rparr>) s"

text \<open>
  One pull, as the resampler and \<open>read_frames\<close> perform it: ask for \<open>n\<close> frames, take
  what the view offers, release exactly that.
\<close>

definition provider_pull :: "nat \<Rightarrow> int \<times> int \<Rightarrow> state \<Rightarrow> state \<times> int" where
  "provider_pull p c s =
     (let (s1, buf, ret) = get_next_buffer (snd c) p \<lparr>raw = None, frame_count = fst c\<rparr> s
      in (release_buffer p buf s1, frame_count buf))"

fun provider_pulls :: "nat \<Rightarrow> (int \<times> int) list \<Rightarrow> state \<Rightarrow> state \<times> int" where
  "provider_pulls p [] s = (s, 0)"
| "provider_pulls p (c # cs) s =
     (let (s1, n) = provider_pull p c s;
          (s2, m) = provider_pulls p cs s1
      in (s2, n + m))"

section \<open>Opening the device and its streams\<close>

record audio_config =
  sample_rate :: int
  channel_mask :: int
  format_c :: int

text \<open>A block fresh from \<open>calloc\<close>: every field zero.\<close>

definition zero_out :: stream_out where
  "zero_out =
     \<lparr> pcm_o = None, pcm_config_o = None, standby_o = False, written = 0,
       resampler_o = None, buffer_o = None, buffer_frames = 0, write_threshold = 0,
       cur_write_threshold = 0, buffer_type = OUT_BUFFER_TYPE_UNKNOWN,
       sleep_req_o = False, lock_o = False, lock_cnt_o = 0 \<rparr>"

definition zero_in :: stream_in where
  "zero_in =
     \<lparr> pcm_i = None, pcm_config_i = pcm_config_in, standby_i = False, requested_rate = 0,
       resampler_i = None, buffer_i = None, buffer_size = 0, frames_in = 0,
       read_status = 0, sleep_req_i = False, lock_i = False, lock_cnt_i = 0 \<rparr>"

text \<open>The device as \<open>adev_open\<close> leaves it, before any stream exists.\<close>

definition adev_open :: state where
  "adev_open =
     \<lparr> dev = \<lparr> mode = AUDIO_MODE_NORMAL, out_device = AUDIO_DEVICE_NONE,
               in_device = AUDIO_DEVICE_NONE, in_source = AUDIO_DEVICE_NONE,
               standby_d = False, mic_mute = False, screen_off = False, lock_d = False,
               lock_cnt_d = 0, active_out = None, active_in = None \<rparr>,
       outs = (\<lambda>_. zero_out), ins = (\<lambda>_. zero_in), events = [], halted = None \<rparr>"

text \<open>
  Opening a stream: \<open>a\<close> is what \<open>calloc\<close> returns. The result is the new state, the
  configuration handed back, the stream pointer stored for the caller and the status.
\<close>

definition adev_open_output_stream ::
    "nat option \<Rightarrow> audio_config \<Rightarrow> state \<Rightarrow> state \<times> audio_config \<times> nat option \<times> int" where
  "adev_open_output_stream a config s =
     (case a of
        None \<Rightarrow> (s, config, None, - ENOMEM)
      | Some p \<Rightarrow>
          let s1 = s\<lparr>outs := (outs s)(p := zero_out)\<rparr>
          in if channel_mask config \<noteq> AUDIO_CHANNEL_OUT_STEREO \<or> sample_rate config \<noteq> 44100
             then (s1, config\<lparr>channel_mask := AUDIO_CHANNEL_OUT_STEREO, sample_rate := 44100\<rparr>,
                   None, - EINVAL)
             else (upd_out p (\<lambda>out. out\<lparr>standby_o := True\<rparr>) s1,
                   config\<lparr>format_c := AUDIO_FORMAT_PCM_16_BIT,
                          channel_mask := AUDIO_CHANNEL_OUT_STEREO,
                          sample_rate := out_get_sample_rate\<rparr>,
                   Some p, 0))"

definition adev_open_input_stream ::
    "nat option \<Rightarrow> bool \<Rightarrow> audio_config \<Rightarrow> state \<Rightarrow> state \<times> audio_config \<times> nat option \<times> int" where
  "adev_open_input_stream a fast config s =
     (if channel_mask config \<noteq> AUDIO_CHANNEL_IN_MONO then
        (s, config\<lparr>channel_mask := AUDIO_CHANNEL_IN_MONO\<rparr>, None, - EINVAL)
      else case a of
        None \<Rightarrow> (s, config, None, - ENOMEM)
      | Some p \<Rightarrow>
          (s\<lparr>ins := (ins s)(p := zero_in\<lparr>standby_i := True,
                requested_rate := sample_rate config,
                pcm_config_i := (if sample_rate config = IN_SAMPLING_RATE \<and> fast
                                 then pcm_config_in_low_latency else pcm_config_in)\<rparr>)\<rparr>,
           config, Some p, 0))"

text \<open>A device with one output stream at address 1 and one input stream at address 2.\<close>

definition cd_config :: audio_config where
  "cd_config = \<lparr> sample_rate = 44100, channel_mask = AUDIO_CHANNEL_OUT_STEREO,
                 format_c = AUDIO_FORMAT_PCM_16_BIT \<rparr>"

definition mono_config :: audio_config where
  "mono_config = \<lparr> sample_rate = 44100, channel_mask = AUDIO_CHANNEL_IN_MONO,
                   format_c = AUDIO_FORMAT_PCM_16_BIT \<rparr>"

definition opened :: state where
  "opened = fst (adev_open_input_stream (Some 2) False mono_config
                   (fst (adev_open_output_stream (Some 1) cd_config adev_open)))"

section \<open>Presentation position\<close>

text \<open>
  \<open>pcm_get_htimestamp\<close> either fails or reports the available frames. The stream's
  configuration pointer is \<open>NULL\<close> until the first start.
\<close>

datatype htimestamp_result = HtFail | HtOk int

definition signed_frames :: "int \<Rightarrow> int \<Rightarrow> int \<Rightarrow> int" where
  "signed_frames w kernel_buffer_size avail = s64 (u64 (w - kernel_buffer_size + avail))"

definition out_get_presentation_position ::
    "htimestamp_result \<Rightarrow> nat \<Rightarrow> state \<Rightarrow> fault + (state \<times> int option \<times> int)" where
  "out_get_presentation_position ht p s = returned
     (let s1 = upd_out p (\<lambda>out. out\<lparr>sleep_req_o := True\<rparr>) s;
          s2 = out_lock p s1;
          s3 = upd_out p (\<lambda>out. out\<lparr>sleep_req_o := False\<rparr>) s2
      in if standby_o (outs s3 p) then (out_unlock p s3, None, - ENOSYS)
         else if pcm_o (outs s3 p) = None then (out_unlock p s3, None, - ENOSYS)
         else case ht of
           HtFail \<Rightarrow> (out_unlock p s3, None, - 1)
         | HtOk avail \<Rightarrow>
             (case pcm_config_o (outs s3 p) of
                None \<Rightarrow> (halt NullDeref s3, None, - 1)
              | Some cfg \<Rightarrow>
                  let kernel_buffer_size = u32 (period_size cfg * period_count cfg);
                      sf = signed_frames (written (outs s3 p)) kernel_buffer_size (u32 avail)
                  in if sf \<ge> 0 then (out_unlock p s3, Some (u64 sf), 0)
                     else (out_unlock p s3, None, - 1)))"

text \<open>The events of a trace that are hardware reads.\<close>

fun is_pcm_read :: "hw_event \<Rightarrow> bool" where
  "is_pcm_read (PcmRead h n) = True"
| "is_pcm_read e = False"

definition pcm_reads :: "state \<Rightarrow> int" where
  "pcm_reads s = int (length (filter is_pcm_read (events s)))"

text \<open>An output stream in the middle of playback, 10000 frames written.\<close>

definition playing :: state where
  "playing = upd_out 1 (\<lambda>out. out\<lparr>pcm_o := Some 7, pcm_config_o := Some pcm_config_out,
                standby_o := False, written := 10000\<rparr>)
                (upd_dev (\<lambda>d. d\<lparr>active_out := Some 1\<rparr>) opened)"

text \<open>
  A provider in working order: the handle is open, the raw buffer is allocated and the
  carry-count lies between zero and the period size.
\<close>

definition provider_ok :: "nat \<Rightarrow> state \<Rightarrow> bool" where
  "provider_ok p s \<longleftrightarrow>
     pcm_i (ins s p) \<noteq> None \<and> buffer_i (ins s p) \<noteq> None \<and> 0 \<le> frames_in (ins s p)
     \<and> frames_in (ins s p) \<le> period_size (pcm_config_i (ins s p))
     \<and> period_size (pcm_config_i (ins s p)) < 2 ^ 32"

text \<open>The input stream at address 2 after a successful start at the hardware rate.\<close>

definition capturing :: state where
  "capturing = upd_in 2 (\<lambda>i. i\<lparr>standby_i := False\<rparr>)
     (fst (start_input_stream \<lparr>pcm_open = PcmReady 5, create_resampler = None, malloc = Some 6\<rparr>
             2 opened))"

section \<open>Writing\<close>

subsection \<open>Claiming the hardware path from an active input\<close>

text \<open>
  The loop at the head of \<open>out_write\<close>'s exit from standby. \<open>inp\<close> is the local \<open>in\<close>;
  the result is the state, the final \<open>in\<close>, \<open>restart_input\<close> and \<open>in_locked\<close>. No
  other thread runs between the unlock and the relock, so the re-read active pointer is
  the one read before and the loop ends after at most two rounds.
\<close>

function out_wait_input :: "state \<Rightarrow> nat option \<Rightarrow> state \<times> nat option \<times> bool \<times> bool" where
  "out_wait_input s inp =
     (case inp of
        None \<Rightarrow> (s, None, False, False)
      | Some i \<Rightarrow>
          if standby_i (ins s i) then (s, Some i, False, False)
          else
            let s1 = adev_unlock s;
                s2 = upd_in i (\<lambda>x. x\<lparr>sleep_req_i := True\<rparr>) s1;
                s3 = in_lock i s2;
                s4 = adev_lock s3
            in if Some i = active_in (dev s4) then
                 (if \<not> standby_i (ins s4 i) then (do_in_standby i s4, Some i, True, True)
                  else (s4, Some i, False, True))
               else out_wait_input (in_unlock i s4) (active_in (dev s4)))"
  by pat_completeness auto
termination
  by (relation "measure (\<lambda>(s, inp). if inp = active_in (dev s) then 0 else 1)")
     (auto simp: adev_lock_def adev_unlock_def in_lock_def in_unlock_def upd_in_def upd_dev_def
        halt_def split: if_splits)

declare out_wait_input.simps [simp del]

subsection \<open>Pacing\<close>

text \<open>
  The \<open>do \<dots> while\<close> loop that keeps the kernel buffer below \<open>cur_write_threshold\<close>.
  \<open>ht n\<close> is what \<open>pcm_get_htimestamp\<close> answers in round \<open>n\<close>; \<open>kf\<close> is the local
  \<open>kernel_frames\<close>, which a failed query leaves as it was; \<open>slept\<close> collects the
  arguments of \<open>usleep\<close>. The result is \<open>kernel_frames\<close>, \<open>total_sleep_time_us\<close>, the
  sleeps and the number of rounds.
\<close>

function pacing_loop ::
    "(nat \<Rightarrow> htimestamp_result) \<Rightarrow> pcm_config \<Rightarrow> int \<Rightarrow> nat \<Rightarrow> int \<Rightarrow> int \<Rightarrow> int list
       \<Rightarrow> int \<times> int \<times> int list \<times> nat" where
  "pacing_loop ht cfg cwt n kf tot slept =
     (case ht n of
        HtFail \<Rightarrow> (kf, tot, slept, Suc n)
      | HtOk avail \<Rightarrow>
          let kf1 = s32 (pcm_get_buffer_size cfg - avail)
          in if kf1 > cwt then
               let sleep_time_us = s32 (((kf1 - cwt) * 1000000) div rate cfg)
               in if sleep_time_us < MIN_WRITE_SLEEP_US then (kf1, tot, slept, Suc n)
                  else
                    let tot1 = tot + sleep_time_us;
                        sleep1 = (if tot1 > MAX_WRITE_SLEEP_US
                                  then MAX_WRITE_SLEEP_US - (tot1 - sleep_time_us)
                                  else sleep_time_us)
                    in if tot1 \<le> MAX_WRITE_SLEEP_US
                       then pacing_loop ht cfg cwt (Suc n) kf1 tot1 (slept @ [sleep1])
                       else (kf1, tot1, slept @ [sleep1], Suc n)
             else (kf1, tot, slept, Suc n))"
  by pat_completeness auto
termination
  by (relation "measure (\<lambda>(ht, cfg, cwt, n, kf, tot, slept).
                   nat (MAX_WRITE_SLEEP_US + 1 - tot))")
     (auto simp: MIN_WRITE_SLEEP_US_def)

declare pacing_loop.simps [simp del]

subsection \<open>Smoothing the write threshold\<close>

text \<open>
  \<open>period_size\<close> is a \<open>size_t\<close> local: the steps and the reset are computed unsigned and
  stored back into the \<open>int\<close> field.
\<close>

definition smooth_threshold :: "int \<Rightarrow> int \<Rightarrow> int \<Rightarrow> int \<Rightarrow> int" where
  "smooth_threshold ps wt cur kf =
     (if cur > wt then
        let c = s32 (u32 cur - ps div 4) in if c < wt then wt else c
      else if cur < wt then
        let c = s32 (u32 cur + ps div 4) in if c > wt then wt else c
      else if kf < wt \<and> wt - kf > s32 (u32 (ps * OUT_SHORT_PERIOD_COUNT)) then
        s32 (u32 (s32 (u32 ((u32 kf div ps + 1) * ps))) + ps div 4)
      else cur)"

subsection \<open>The write call\<close>

record out_write_env =
  ow_start_out :: start_env
  ow_start_in :: start_env
  ow_htimestamp :: "nat \<Rightarrow> htimestamp_result"
  ow_kernel_frames :: int
  ow_resampled :: int
  ow_pcm_write :: int

text \<open>
  Leaving standby, from \<open>adev_lock\<close> to \<open>adev_unlock\<close>. The status returned is that of
  \<open>start_output_stream\<close>: not zero means \<open>goto exit\<close>, with the device lock (and the
  input lock, if taken) still held. After a successful start the local \<open>ret\<close> is not
  read again before \<open>pcm_write\<close> assigns it.
\<close>

definition out_write_exit_standby :: "out_write_env \<Rightarrow> nat \<Rightarrow> state \<Rightarrow> state \<times> int" where
  "out_write_exit_standby env p s =
     (let s1 = adev_lock s;
          (s2, inp, restart_input, in_locked) = out_wait_input s1 (active_in (dev s1));
          (s3, ret) = start_output_stream (ow_start_out env) p s2
      in if ret \<noteq> 0 then (s3, ret)
         else
           let s4 = (case inp of
                       None \<Rightarrow> s3
                     | Some i \<Rightarrow>
                         let t1 = (if restart_input \<and> standby_i (ins s3 i) then
                                     let (u, r) = start_input_stream (ow_start_in env) i s3
                                     in if r = 0 then upd_in i (\<lambda>x. x\<lparr>standby_i := False\<rparr>) u
                                        else u
                                   else s3);
                             t2 = (if in_locked then in_unlock i t1 else t1)
                         in upd_in i (\<lambda>x. x\<lparr>sleep_req_i := False\<rparr>) t2);
               s5 = emit (SelectDevices (out_device (dev s4)) (in_device (dev s4))) s4;
               s6 = upd_out p (\<lambda>out. out\<lparr>standby_o := False\<rparr>) s5
           in (adev_unlock s6, 0))"

text \<open>Choice of the buffering regime and of the target threshold.\<close>

definition select_buffer_type :: "pcm_config \<Rightarrow> nat \<Rightarrow> state \<Rightarrow> state" where
  "select_buffer_type cfg p s =
     (let bt = (if screen_off (dev s) \<and> active_in (dev s) = None
                then OUT_BUFFER_TYPE_LONG else OUT_BUFFER_TYPE_SHORT)
      in if bt \<noteq> buffer_type (outs s p) then
           let period_count = (if bt = OUT_BUFFER_TYPE_LONG then OUT_LONG_PERIOD_COUNT
                               else OUT_SHORT_PERIOD_COUNT);
               wt = s32 (u32 (period_size cfg * period_count))
           in upd_out p (\<lambda>out. out\<lparr>write_threshold := wt,
                 cur_write_threshold := (if buffer_type out = OUT_BUFFER_TYPE_UNKNOWN
                                         then wt else cur_write_threshold out),
                 buffer_type := bt\<rparr>) s
         else s)"

text \<open>The label \<open>exit\<close>: unlock, sleep for the transfer time after an error, report all bytes.\<close>

definition out_write_exit :: "nat \<Rightarrow> int \<Rightarrow> int \<Rightarrow> state \<Rightarrow> state \<times> int" where
  "out_write_exit p bytes ret s =
     (let s1 = out_unlock p s;
          s2 = (if ret \<noteq> 0 then
                  emit (Usleep (u32 (bytes * 1000000) div audio_stream_out_frame_size
                                  div out_get_sample_rate)) s1
                else s1)
      in (s2, s32 bytes))"

text \<open>From the hardware write to the return.\<close>

definition out_write_transfer ::
    "out_write_env \<Rightarrow> nat \<Rightarrow> int \<Rightarrow> int \<Rightarrow> int \<Rightarrow> state \<Rightarrow> state \<times> int" where
  "out_write_transfer env p bytes out_frames frame_size s =
     (let s1 = emit (PcmWrite (pcm_o (outs s p)) (u32 (out_frames * frame_size))) s;
          ret = ow_pcm_write env
      in if ret = - EPIPE then (out_unlock p s1, ret)
         else
           let s2 = (if ret = 0 then
                       upd_out p (\<lambda>out. out\<lparr>written := u64 (written out + out_frames)\<rparr>) s1
                     else s1)
           in out_write_exit p bytes ret s2)"

text \<open>Pacing and smoothing, on the state: the sleeps go to the trace.\<close>

definition out_write_pace :: "out_write_env \<Rightarrow> pcm_config \<Rightarrow> nat \<Rightarrow> state \<Rightarrow> state" where
  "out_write_pace env cfg p s =
     (let (kf, tot, slept, rounds) =
            pacing_loop (ow_htimestamp env) cfg (cur_write_threshold (outs s p)) 0
              (ow_kernel_frames env) 0 [];
          s1 = s\<lparr>events := events s @ map Usleep slept\<rparr>
      in upd_out p (\<lambda>out. out\<lparr>cur_write_threshold :=
            smooth_threshold (u32 (period_size cfg)) (write_threshold out)
              (cur_write_threshold out) kf\<rparr>) s1)"

definition out_write :: "out_write_env \<Rightarrow> nat \<Rightarrow> int \<Rightarrow> state \<Rightarrow> fault + (state \<times> int)" where
  "out_write env p bytes s = returned
     (let frame_size = audio_stream_out_frame_size;
          in_frames = bytes div frame_size;
          s0 = (if sleep_req_o (outs s p) then emit (Usleep 10000) s else s);
          s1 = out_lock p s0;
          (s2, ret) = (if standby_o (outs s1 p) then out_write_exit_standby env p s1
                       else (s1, 0))
      in if ret \<noteq> 0 then out_write_exit p bytes ret s2
         else case pcm_config_o (outs s2 p) of
           None \<Rightarrow> (halt NullDeref s2, 0)
         | Some cfg \<Rightarrow>
             let s3 = select_buffer_type cfg p s2;
                 frame_size1 = (if 2 > s32 (channels cfg) then frame_size div 2 else frame_size)
             in if out_get_sample_rate \<noteq> rate cfg then
                  (case resampler_o (outs s3 p) of
                     None \<Rightarrow> (halt NullDeref s3, 0)
                   | Some r \<Rightarrow>
                       out_write_transfer env p bytes (ow_resampled env) frame_size1
                         (out_write_pace env cfg p s3))
                else
                  out_write_transfer env p bytes in_frames frame_size1
                    (out_write_pace env cfg p s3))"

section \<open>Reading\<close>

text \<open>
  The loop at the head of \<open>in_read\<close>'s exit from standby, for the input stream \<open>p\<close>:
  \<open>outp\<close> is the local \<open>out\<close>, the result is the state, the final \<open>out\<close> and
  \<open>out_locked\<close>.
\<close>

function in_wait_output :: "nat \<Rightarrow> state \<Rightarrow> nat option \<Rightarrow> state \<times> nat option \<times> bool" where
  "in_wait_output p s outp =
     (case outp of
        None \<Rightarrow> (s, None, False)
      | Some q \<Rightarrow>
          if standby_o (outs s q) then (s, Some q, False)
          else
            let s1 = adev_unlock s;
                s2 = in_unlock p s1;
                s3 = upd_out q (\<lambda>out. out\<lparr>sleep_req_o := True\<rparr>) s2;
                s4 = out_lock q s3;
                s5 = in_lock p s4;
                s6 = adev_lock s5
            in if Some q = active_out (dev s6) then (s6, Some q, True)
               else in_wait_output p (out_unlock q s6) (active_out (dev s6)))"
  by pat_completeness auto
termination
  by (relation "measure (\<lambda>(p, s, outp). if outp = active_out (dev s) then 0 else 1)")
     (auto simp: adev_lock_def adev_unlock_def in_lock_def in_unlock_def out_lock_def
        out_unlock_def upd_in_def upd_out_def upd_dev_def halt_def
        split: if_splits)

declare in_wait_output.simps [simp del]

record resample_step =
  pulls :: "(int \<times> int) list"
  produced :: int
  direct_read :: int

record in_read_env =
  ir_start_out :: start_env
  ir_start_in :: start_env
  ir_pcm_read :: int
  ir_resample :: "resample_step list"

text \<open>
  Leaving standby, from \<open>adev_lock\<close> to \<open>adev_unlock\<close>; the status is that of
  \<open>start_input_stream\<close>. An output that is not in standby is closed and started again,
  and marked as not in standby whatever its start returned.
\<close>

definition in_read_exit_standby :: "in_read_env \<Rightarrow> nat \<Rightarrow> state \<Rightarrow> state \<times> int" where
  "in_read_exit_standby env p s =
     (let s1 = adev_lock s;
          (s2, outp, out_locked) = in_wait_output p s1 (active_out (dev s1));
          s3 = (case outp of
                  None \<Rightarrow> s2
                | Some q \<Rightarrow>
                    if \<not> standby_o (outs s2 q) then
                      let t1 = do_out_standby q s2;
                          (t2, r) = start_output_stream (ir_start_out env) q t1;
                          t3 = upd_out q (\<lambda>out. out\<lparr>standby_o := False\<rparr>) t2
                      in if out_locked
                         then upd_out q (\<lambda>out. out\<lparr>sleep_req_o := False\<rparr>) (out_unlock q t3)
                         else t3
                    else s2);
          (s4, ret) = start_input_stream (ir_start_in env) p s3;
          s5 = (if ret = 0 then upd_in p (\<lambda>i. i\<lparr>standby_i := False\<rparr>) s4 else s4);
          s6 = emit (SelectDevices (out_device (dev s5)) (in_device (dev s5))) s5;
          s7 = emit (SelectInputSource (in_source (dev s6))) s6
      in (adev_unlock s7, ret))"

text \<open>
  \<open>read_frames\<close>. The resampler is a black box that pulls from the provider: each of its
  calls is given by the pulls it makes and the frames it reports as produced, and a list
  that ends before the request is met leaves the outcome open (\<open>Unfinished\<close>). Without
  a resampler the function pulls once per round itself and copies from the view, which
  dereferences it.
\<close>

fun read_frames :: "resample_step list \<Rightarrow> nat \<Rightarrow> int \<Rightarrow> int \<Rightarrow> state \<Rightarrow> state \<times> int" where
  "read_frames steps p frames frames_wr s =
     (if \<not> frames_wr < frames then (s, frames_wr)
      else case steps of
        [] \<Rightarrow> (halt Unfinished s, frames_wr)
      | st # rest \<Rightarrow>
          let (s1, frames_rd) =
                (case resampler_i (ins s p) of
                   Some r \<Rightarrow> (fst (provider_pulls p (pulls st) s), produced st)
                 | None \<Rightarrow>
                     let (t1, buf, r) = get_next_buffer (direct_read st) p
                                          \<lparr>raw = None, frame_count = u32 (frames - frames_wr)\<rparr> s;
                         t2 = (if raw buf \<noteq> None \<and> buffer_i (ins t1 p) = None
                                  \<and> u32 (frame_count buf * audio_stream_in_frame_size) \<noteq> 0
                               then halt NullDeref t1 else t1)
                     in (release_buffer p buf t2,
                         if raw buf \<noteq> None then frame_count buf else u32 (frames - frames_wr)))
          in if read_status (ins s1 p) \<noteq> 0 then (s1, read_status (ins s1 p))
             else read_frames rest p frames (s32 (frames_wr + frames_rd)) s1)"

declare read_frames.simps [simp del]

text \<open>
  The label \<open>exit\<close>: after a negative status sleep for the transfer time, which divides
  by the requested rate; unlock and report all bytes.
\<close>

definition in_read_exit :: "nat \<Rightarrow> int \<Rightarrow> int \<Rightarrow> state \<Rightarrow> state \<times> int" where
  "in_read_exit p bytes ret s =
     (let s1 = (if ret < 0 then
                  (if in_get_sample_rate (ins s p) = 0 then halt DivByZero s
                   else emit (Usleep (u32 (bytes * 1000000) div audio_stream_in_frame_size
                                        div in_get_sample_rate (ins s p))) s)
                else s)
      in (in_unlock p s1, s32 bytes))"

text \<open>
  The read call. On the stereo path without a resampler the right channel is discarded
  from the raw buffer, which dereferences it once per requested frame.
\<close>

definition in_read :: "in_read_env \<Rightarrow> nat \<Rightarrow> int \<Rightarrow> state \<Rightarrow> fault + (state \<times> int)" where
  "in_read env p bytes s = returned
     (let frames_rq = bytes div audio_stream_in_frame_size;
          s0 = (if sleep_req_i (ins s p) then emit (Usleep 10000) s else s);
          s1 = in_lock p s0;
          (s2, ret) = (if standby_i (ins s1 p) then in_read_exit_standby env p s1 else (s1, 0))
      in if ret < 0 then in_read_exit p bytes ret s2
         else
           let (s3, ret1) =
                 (case resampler_i (ins s2 p) of
                    Some r \<Rightarrow> read_frames (ir_resample env) p (s32 frames_rq) 0 s2
                  | None \<Rightarrow>
                      if channels (pcm_config_i (ins s2 p)) = 2 then
                        let t = emit (PcmRead (pcm_i (ins s2 p)) (u32 (bytes * 2))) s2
                        in (if buffer_i (ins t p) = None \<and> 0 < frames_rq
                            then halt NullDeref t else t,
                            ir_pcm_read env)
                      else (emit (PcmRead (pcm_i (ins s2 p)) bytes) s2, ir_pcm_read env))
           in in_read_exit p bytes (if ret1 > 0 then 0 else ret1) s3)"

section \<open>Parameters, mode and mute\<close>

text \<open>
  Key-value strings arrive parsed: \<open>None\<close> for an absent key, the number \<open>atoi\<close> yields
  otherwise (for the input routing with the direction bit already masked off).
\<close>

definition out_set_parameters :: "int option \<Rightarrow> nat \<Rightarrow> state \<Rightarrow> fault + state" where
  "out_set_parameters routing p s = finished
     (let s1 = upd_out p (\<lambda>out. out\<lparr>sleep_req_o := True\<rparr>) s;
          s2 = out_lock p s1;
          s3 = upd_out p (\<lambda>out. out\<lparr>sleep_req_o := False\<rparr>) s2;
          s4 = adev_lock s3;
          s5 = (case routing of
                  None \<Rightarrow> s4
                | Some v \<Rightarrow>
                    if out_device (dev s4) \<noteq> u32 v \<and> u32 v \<noteq> 0 then
                      let t = (if mode (dev s4) \<noteq> AUDIO_MODE_IN_CALL
                                  \<and> \<not> standby_o (outs s4 p)
                               then do_out_standby p s4 else s4)
                      in upd_dev (\<lambda>d. d\<lparr>out_device := u32 v\<rparr>) t
                    else s4)
      in out_unlock p (adev_unlock s5))"

definition in_set_parameters ::
    "int option \<Rightarrow> int option \<Rightarrow> nat \<Rightarrow> state \<Rightarrow> fault + state" where
  "in_set_parameters source routing p s = finished
     (let s1 = upd_in p (\<lambda>i. i\<lparr>sleep_req_i := True\<rparr>) s;
          s2 = in_lock p s1;
          s3 = upd_in p (\<lambda>i. i\<lparr>sleep_req_i := False\<rparr>) s2;
          s4 = adev_lock s3;
          s5 = (case source of
                  None \<Rightarrow> s4
                | Some v \<Rightarrow>
                    if in_source (dev s4) \<noteq> u32 v then
                      emit (SelectInputSource (u32 v))
                        (upd_dev (\<lambda>d. d\<lparr>in_source := u32 v\<rparr>) s4)
                    else s4);
          s6 = (case routing of
                  None \<Rightarrow> s5
                | Some v \<Rightarrow>
                    if in_device (dev s5) \<noteq> u32 v \<and> u32 v \<noteq> 0 then
                      let t = (if mode (dev s5) \<noteq> AUDIO_MODE_IN_CALL
                                  \<and> \<not> standby_i (ins s5 p)
                               then do_in_standby p s5 else s5)
                      in upd_dev (\<lambda>d. d\<lparr>in_device := u32 v\<rparr>) t
                    else s5)
      in in_unlock p (adev_unlock s6))"

definition adev_set_parameters :: "string option \<Rightarrow> state \<Rightarrow> state" where
  "adev_set_parameters screen_state s =
     (case screen_state of
        None \<Rightarrow> s
      | Some v \<Rightarrow> upd_dev (\<lambda>d. d\<lparr>screen_off := (v \<noteq> ''on'')\<rparr>) s)"

definition adev_set_mode :: "int \<Rightarrow> state \<Rightarrow> fault + state" where
  "adev_set_mode m s = finished (adev_unlock (upd_dev (\<lambda>d. d\<lparr>mode := m\<rparr>) (adev_lock s)))"

definition adev_set_mic_mute :: "bool \<Rightarrow> state \<Rightarrow> fault + state" where
  "adev_set_mic_mute st s = finished
     (let s1 = (case active_in (dev s) of
                  None \<Rightarrow> s
                | Some i \<Rightarrow>
                    let t1 = upd_in i (\<lambda>x. x\<lparr>sleep_req_i := True\<rparr>) s;
                        t2 = in_lock i t1;
                        t3 = upd_in i (\<lambda>x. x\<lparr>sleep_req_i := False\<rparr>) t2;
                        t4 = adev_lock t3;
                        t5 = (if mode (dev t4) \<noteq> AUDIO_MODE_IN_CALL
                              then do_in_standby i t4 else t4)
                    in in_unlock i (adev_unlock t5))
      in upd_dev (\<lambda>d. d\<lparr>mic_mute := st\<rparr>) s1)"

definition adev_close_output_stream :: "nat \<Rightarrow> state \<Rightarrow> fault + state" where
  "adev_close_output_stream p s =
     (case out_standby p s of Inl f \<Rightarrow> Inl f | Inr r \<Rightarrow> Inr (fst r))"

definition adev_close_input_stream :: "nat \<Rightarrow> state \<Rightarrow> fault + state" where
  "adev_close_input_stream p s =
     (case in_standby p s of
        Inl f \<Rightarrow> Inl f
      | Inr r \<Rightarrow> finished (adev_unlock (upd_dev (\<lambda>d. d\<lparr>active_in := None\<rparr>)
                                (adev_lock (fst r)))))"

section \<open>Runs of the API\<close>

datatype api_call =
    OpenOutput "nat option" audio_config
  | OpenInput "nat option" bool audio_config
  | CloseOutput nat
  | CloseInput nat
  | OutWrite out_write_env nat int
  | InRead in_read_env nat int
  | OutStandby nat
  | InStandby nat
  | OutSetParameters "int option" nat
  | InSetParameters "int option" "int option" nat
  | GetPresentationPosition htimestamp_result nat
  | SetParameters "string option"
  | SetMode int
  | SetMicMute bool

text \<open>One call; \<open>None\<close> when the call does not return.\<close>

definition result_state :: "fault + state \<times> 'a \<Rightarrow> state option" where
  "result_state x = (case x of Inl f \<Rightarrow> None | Inr r \<Rightarrow> Some (fst r))"

definition final_state :: "fault + state \<Rightarrow> state option" where
  "final_state x = (case x of Inl f \<Rightarrow> None | Inr s \<Rightarrow> Some s)"

fun api_step :: "api_call \<Rightarrow> state \<Rightarrow> state option" where
  "api_step (OpenOutput a c) s = Some (fst (adev_open_output_stream a c s))"
| "api_step (OpenInput a f c) s = Some (fst (adev_open_input_stream a f c s))"
| "api_step (CloseOutput p) s = final_state (adev_close_output_stream p s)"
| "api_step (CloseInput p) s = final_state (adev_close_input_stream p s)"
| "api_step (OutWrite env p bytes) s = result_state (out_write env p bytes s)"
| "api_step (InRead env p bytes) s = result_state (in_read env p bytes s)"
| "api_step (OutStandby p) s = result_state (out_standby p s)"
| "api_step (InStandby p) s = result_state (in_standby p s)"
| "api_step (OutSetParameters r p) s = final_state (out_set_parameters r p s)"
| "api_step (InSetParameters src r p) s = final_state (in_set_parameters src r p s)"
| "api_step (GetPresentationPosition ht p) s =
     result_state (out_get_presentation_position ht p s)"
| "api_step (SetParameters v) s = Some (adev_set_parameters v s)"
| "api_step (SetMode m) s = final_state (adev_set_mode m s)"
| "api_step (SetMicMute b) s = final_state (adev_set_mic_mute b s)"

fun api_run :: "api_call list \<Rightarrow> state \<Rightarrow> state option" where
  "api_run [] s = Some s"
| "api_run (c # cs) s = (case api_step c s of None \<Rightarrow> None | Some s1 \<Rightarrow> api_run cs s1)"

section \<open>Repeated smoothing\<close>

text \<open>
  The threshold after a sequence of writes against a fixed target, one \<open>kernel_frames\<close>
  value per write, and the ceiling of a quotient as the specification uses it.
\<close>

fun smooth_run :: "int \<Rightarrow> int \<Rightarrow> int \<Rightarrow> int list \<Rightarrow> int" where
  "smooth_run ps wt cur [] = cur"
| "smooth_run ps wt cur (kf # kfs) = smooth_run ps wt (smooth_threshold ps wt cur kf) kfs"

definition ceiling_div :: "int \<Rightarrow> int \<Rightarrow> int" where
  "ceiling_div a b = - ((- a) div b)"

section \<open>Sample environments and states\<close>

text \<open>
  Hardware that opens every handle, reports no timestamp yet and accepts every write; the
  same with a write that fails with \<open>-EIO\<close>; and hardware whose playback handle does
  not get ready.
\<close>

definition ready_env :: out_write_env where
  "ready_env =
     \<lparr> ow_start_out = \<lparr>pcm_open = PcmReady 7, create_resampler = None, malloc = None\<rparr>,
       ow_start_in = \<lparr>pcm_open = PcmReady 8, create_resampler = None, malloc = Some 9\<rparr>,
       ow_htimestamp = (\<lambda>_. HtFail), ow_kernel_frames = 0, ow_resampled = 0,
       ow_pcm_write = 0 \<rparr>"

definition eio_env :: out_write_env where
  "eio_env = ready_env\<lparr>ow_pcm_write := - 5\<rparr>"


definition read_env :: in_read_env where
  "read_env =
     \<lparr> ir_start_out = \<lparr>pcm_open = PcmReady 10, create_resampler = None, malloc = None\<rparr>,
       ir_start_in = \<lparr>pcm_open = PcmReady 5, create_resampler = None, malloc = Some 6\<rparr>,
       ir_pcm_read = 0, ir_resample = [] \<rparr>"


text \<open>A request for a stereo output stream at 48000 Hz.\<close>

definition hi_config :: audio_config where
  "hi_config = \<lparr> sample_rate = 48000, channel_mask = AUDIO_CHANNEL_OUT_STEREO,
                 format_c = AUDIO_FORMAT_PCM_16_BIT \<rparr>"

text \<open>The device after both streams were opened and one period was written.\<close>

definition started :: state where
  "started = (case out_write ready_env 1 4096 opened of Inr r \<Rightarrow> fst r | Inl f \<Rightarrow> opened)"

section \<open>Output streams without rate conversion\<close>

text \<open>
  What an output stream holds for rate conversion, and the states in which no output
  stream holds a resampler or a conversion buffer and every configured one is
  configured for the hardware rate.
\<close>

definition out_conv :: "state \<Rightarrow> nat \<Rightarrow> nat option \<times> nat option \<times> pcm_config option" where
  "out_conv s q = (resampler_o (outs s q), buffer_o (outs s q), pcm_config_o (outs s q))"

definition no_out_conversion :: "state \<Rightarrow> bool" where
  "no_out_conversion s \<longleftrightarrow>
     (\<forall>q. resampler_o (outs s q) = None \<and> buffer_o (outs s q) = None
          \<and> (pcm_config_o (outs s q) = None \<or> pcm_config_o (outs s q) = Some pcm_config_out))"

section \<open>Properties\<close>

subsection \<open>Mutexes and halting\<close>

lemma out_lock_free:
  "\<not> lock_o (outs s p) \<Longrightarrow>
     out_lock p s = upd_out p (\<lambda>out. out\<lparr>lock_o := True, lock_cnt_o := lock_cnt_o out + 1\<rparr>) s"
  by (simp add: out_lock_def)

lemma in_lock_free:
  "\<not> lock_i (ins s p) \<Longrightarrow>
     in_lock p s = upd_in p (\<lambda>i. i\<lparr>lock_i := True, lock_cnt_i := lock_cnt_i i + 1\<rparr>) s"
  by (simp add: in_lock_def)

lemma adev_lock_free:
  "\<not> lock_d (dev s) \<Longrightarrow>
     adev_lock s = upd_dev (\<lambda>d. d\<lparr>lock_d := True, lock_cnt_d := lock_cnt_d d + 1\<rparr>) s"
  by (simp add: adev_lock_def)

lemma out_lock_unlock:
  "\<not> lock_o (outs s p) \<Longrightarrow> out_unlock p (out_lock p s) = s"
  by (simp add: out_lock_def out_unlock_def upd_out_def fun_eq_iff)

lemma in_lock_unlock:
  "\<not> lock_i (ins s p) \<Longrightarrow> in_unlock p (in_lock p s) = s"
  by (simp add: in_lock_def in_unlock_def upd_in_def fun_eq_iff)

lemma adev_lock_unlock:
  "\<not> lock_d (dev s) \<Longrightarrow> adev_unlock (adev_lock s) = s"
  by (simp add: adev_lock_def adev_unlock_def upd_dev_def)

lemma returned_ok: "halted (fst r) = None \<Longrightarrow> returned r = Inr r"
  by (simp add: returned_def)

lemma finished_ok: "halted s = None \<Longrightarrow> finished s = Inr s"
  by (simp add: finished_def)

subsection \<open>Standby is idempotent\<close>

lemma do_out_standby_id: "standby_o (outs s p) \<Longrightarrow> do_out_standby p s = s"
  by (simp add: do_out_standby_def)

lemma do_in_standby_id: "standby_i (ins s p) \<Longrightarrow> do_in_standby p s = s"
  by (simp add: do_in_standby_def)

lemma out_standby_on_standby:
  assumes "standby_o (outs s p)" and "halted s = None"
    and "\<not> lock_o (outs s p)" and "\<not> lock_d (dev s)"
  shows "out_standby p s = Inr (upd_out p (\<lambda>out. out\<lparr>sleep_req_o := False\<rparr>) s, 0)"
proof -
  define s3 where "s3 = upd_out p (\<lambda>out. out\<lparr>sleep_req_o := False\<rparr>)
                          (out_lock p (upd_out p (\<lambda>out. out\<lparr>sleep_req_o := True\<rparr>) s))"
  have s3: "standby_o (outs (adev_lock s3) p)" "\<not> lock_d (dev s3)"
    using assms by (simp_all add: s3_def adev_lock_def out_lock_def upd_out_def upd_dev_def)
  have e: "out_unlock p s3 = upd_out p (\<lambda>out. out\<lparr>sleep_req_o := False\<rparr>) s"
    using assms(3) by (simp add: s3_def out_lock_def out_unlock_def upd_out_def fun_eq_iff)
  have h: "halted (upd_out p (\<lambda>out. out\<lparr>sleep_req_o := False\<rparr>) s) = None"
    using assms(2) by (simp add: upd_out_def)
  show ?thesis
    unfolding out_standby_def Let_def s3_def [symmetric] do_out_standby_id [OF s3(1)]
      adev_lock_unlock [OF s3(2)] e
    by (rule returned_ok) (simp add: h)
qed

lemma in_standby_on_standby:
  assumes "standby_i (ins s p)" and "halted s = None"
    and "\<not> lock_i (ins s p)" and "\<not> lock_d (dev s)"
  shows "in_standby p s = Inr (upd_in p (\<lambda>i. i\<lparr>sleep_req_i := False\<rparr>) s, 0)"
proof -
  define s3 where "s3 = upd_in p (\<lambda>i. i\<lparr>sleep_req_i := False\<rparr>)
                          (in_lock p (upd_in p (\<lambda>i. i\<lparr>sleep_req_i := True\<rparr>) s))"
  have s3: "standby_i (ins (adev_lock s3) p)" "\<not> lock_d (dev s3)"
    using assms by (simp_all add: s3_def adev_lock_def in_lock_def upd_in_def upd_dev_def)
  have e: "in_unlock p s3 = upd_in p (\<lambda>i. i\<lparr>sleep_req_i := False\<rparr>) s"
    using assms(3) by (simp add: s3_def in_lock_def in_unlock_def upd_in_def fun_eq_iff)
  have h: "halted (upd_in p (\<lambda>i. i\<lparr>sleep_req_i := False\<rparr>) s) = None"
    using assms(2) by (simp add: upd_in_def)
  show ?thesis
    unfolding in_standby_def Let_def s3_def [symmetric] do_in_standby_id [OF s3(1)]
      adev_lock_unlock [OF s3(2)] e
    by (rule returned_ok) (simp add: h)
qed

lemma out_standby_on_standby_run:
  assumes "standby_o (outs s p)" and "halted s = None"
    and "\<not> lock_o (outs s p)" and "\<not> lock_d (dev s)"
  shows "api_run (replicate (Suc n) (OutStandby p)) s
           = Some (upd_out p (\<lambda>out. out\<lparr>sleep_req_o := False\<rparr>) s)"
proof (induction n)
  case 0
  show ?case by (simp add: out_standby_on_standby [OF assms] result_state_def)
next
  case (Suc n)
  let ?t = "upd_out p (\<lambda>out. out\<lparr>sleep_req_o := False\<rparr>) s"
  have t: "standby_o (outs ?t p)" "halted ?t = None" "\<not> lock_o (outs ?t p)" "\<not> lock_d (dev ?t)"
    using assms by (simp_all add: upd_out_def)
  have app: "replicate (Suc (Suc n)) (OutStandby p) = replicate (Suc n) (OutStandby p) @ [OutStandby p]"
    by (simp add: replicate_append_same)
  have run: "\<And>cs ds u. api_run (cs @ ds) u
               = (case api_run cs u of None \<Rightarrow> None | Some v \<Rightarrow> api_run ds v)"
  proof -
    fix cs ds u show "api_run (cs @ ds) u
               = (case api_run cs u of None \<Rightarrow> None | Some v \<Rightarrow> api_run ds v)"
      by (induction cs arbitrary: u) (simp_all split: option.splits)
  qed
  have "api_run (replicate (Suc (Suc n)) (OutStandby p)) s = api_run [OutStandby p] ?t"
    unfolding app run Suc.IH by simp
  also have "\<dots> = Some (upd_out p (\<lambda>out. out\<lparr>sleep_req_o := False\<rparr>) ?t)"
    by (simp add: out_standby_on_standby [OF t] result_state_def)
  also have "upd_out p (\<lambda>out. out\<lparr>sleep_req_o := False\<rparr>) ?t = ?t"
    by (simp add: upd_out_def)
  finally show ?case .
qed

lemma in_standby_on_standby_run:
  assumes "standby_i (ins s p)" and "halted s = None"
    and "\<not> lock_i (ins s p)" and "\<not> lock_d (dev s)"
  shows "api_run (replicate (Suc n) (InStandby p)) s
           = Some (upd_in p (\<lambda>i. i\<lparr>sleep_req_i := False\<rparr>) s)"
proof (induction n)
  case 0
  show ?case by (simp add: in_standby_on_standby [OF assms] result_state_def)
next
  case (Suc n)
  let ?t = "upd_in p (\<lambda>i. i\<lparr>sleep_req_i := False\<rparr>) s"
  have t: "standby_i (ins ?t p)" "halted ?t = None" "\<not> lock_i (ins ?t p)" "\<not> lock_d (dev ?t)"
    using assms by (simp_all add: upd_in_def)
  have app: "replicate (Suc (Suc n)) (InStandby p) = replicate (Suc n) (InStandby p) @ [InStandby p]"
    by (simp add: replicate_append_same)
  have run: "\<And>cs ds u. api_run (cs @ ds) u
               = (case api_run cs u of None \<Rightarrow> None | Some v \<Rightarrow> api_run ds v)"
  proof -
    fix cs ds u show "api_run (cs @ ds) u
               = (case api_run cs u of None \<Rightarrow> None | Some v \<Rightarrow> api_run ds v)"
      by (induction cs arbitrary: u) (simp_all split: option.splits)
  qed
  have "api_run (replicate (Suc (Suc n)) (InStandby p)) s = api_run [InStandby p] ?t"
    unfolding app run Suc.IH by simp
  also have "\<dots> = Some (upd_in p (\<lambda>i. i\<lparr>sleep_req_i := False\<rparr>) ?t)"
    by (simp add: in_standby_on_standby [OF t] result_state_def)
  also have "upd_in p (\<lambda>i. i\<lparr>sleep_req_i := False\<rparr>) ?t = ?t"
    by (simp add: upd_in_def)
  finally show ?case .
qed

lemma funpow_fixed: "f s = s \<Longrightarrow> (f ^^ n) s = s"
  by (induction n) simp_all

lemma do_out_standby_funpow: "standby_o (outs s p) \<Longrightarrow> (do_out_standby p ^^ n) s = s"
  by (rule funpow_fixed) (rule do_out_standby_id)

lemma do_in_standby_funpow: "standby_i (ins s p) \<Longrightarrow> (do_in_standby p ^^ n) s = s"
  by (rule funpow_fixed) (rule do_in_standby_id)

lemma opened_fields:
  "active_out (dev opened) = None" "active_in (dev opened) = None"
  "outs opened (Suc 0) = zero_out\<lparr>standby_o := True\<rparr>"
  "ins opened 2 = zero_in\<lparr>standby_i := True, requested_rate := 44100,
                           pcm_config_i := pcm_config_in\<rparr>"
  "halted opened = None" "\<not> lock_d (dev opened)" "events opened = []"
  by (simp_all add: opened_def adev_open_output_stream_def adev_open_input_stream_def
      cd_config_def mono_config_def adev_open_def upd_out_def Let_def
      AUDIO_CHANNEL_OUT_STEREO_def AUDIO_CHANNEL_IN_MONO_def)

lemma opened_standby: "standby_o (outs opened 1) \<and> standby_i (ins opened 2)"
  by (simp add: opened_fields)

lemma opened_free: "\<not> lock_o (outs opened 1) \<and> \<not> lock_i (ins opened 2)"
  by (simp add: opened_fields zero_out_def zero_in_def)

text \<open>
  Claim C9. On a stream that is already in standby, \<open>do_out_standby\<close> and
  \<open>do_in_standby\<close> return the state they were given, however often they are invoked: no
  handle is closed, no resampler released, no buffer freed, and neither the stream nor
  the device changes. The API entry points \<open>out_standby\<close> and \<open>in_standby\<close>, invoked any
  number of times on such a stream while its mutex and the device mutex are free, return
  every time and add nothing to the hardware trace either; all they do is clear the
  stream's own sleep request.
\<close>

theorem standby_idempotent:
  "(standby_o (outs s p) \<longrightarrow>
      (do_out_standby p ^^ n) s = s
      \<and> (halted s = None \<and> \<not> lock_o (outs s p) \<and> \<not> lock_d (dev s) \<longrightarrow>
           api_run (replicate (Suc n) (OutStandby p)) s
             = Some (s\<lparr>outs := (outs s)(p := (outs s p)\<lparr>sleep_req_o := False\<rparr>)\<rparr>)))
   \<and> (standby_i (ins s q) \<longrightarrow>
      (do_in_standby q ^^ n) s = s
      \<and> (halted s = None \<and> \<not> lock_i (ins s q) \<and> \<not> lock_d (dev s) \<longrightarrow>
           api_run (replicate (Suc n) (InStandby q)) s
             = Some (s\<lparr>ins := (ins s)(q := (ins s q)\<lparr>sleep_req_i := False\<rparr>)\<rparr>)))"
  using do_out_standby_funpow [of s p n] do_in_standby_funpow [of s q n]
    out_standby_on_standby_run [of s p n] in_standby_on_standby_run [of s q n]
  by (auto simp: upd_out_def upd_in_def)

theorem standby_idempotent_witness:
  "standby_o (outs opened 1) \<and> standby_i (ins opened 2)
   \<and> halted opened = None \<and> \<not> lock_o (outs opened 1) \<and> \<not> lock_i (ins opened 2)
   \<and> \<not> lock_d (dev opened)
   \<and> (do_out_standby 1 ^^ 3) opened = opened
   \<and> (do_in_standby 2 ^^ 3) opened = opened
   \<and> (\<exists>s'. api_run (replicate (Suc 3) (OutStandby 1)) opened = Some s'
          \<and> events s' = events opened)
   \<and> (\<exists>s'. api_run (replicate (Suc 3) (InStandby 2)) opened = Some s'
          \<and> events s' = events opened)"
proof -
  note t = standby_idempotent [of opened 1 3 2]
  have h: "standby_o (outs opened 1)" "standby_i (ins opened 2)" "halted opened = None"
    "\<not> lock_o (outs opened 1)" "\<not> lock_i (ins opened 2)" "\<not> lock_d (dev opened)"
    using opened_standby opened_free opened_fields(5,6) by simp_all
  have a: "(do_out_standby 1 ^^ 3) opened = opened"
    and b: "api_run (replicate (Suc 3) (OutStandby 1)) opened
             = Some (opened\<lparr>outs := (outs opened)(1 := (outs opened 1)\<lparr>sleep_req_o := False\<rparr>)\<rparr>)"
    using t [THEN conjunct1] h by blast+
  have c: "(do_in_standby 2 ^^ 3) opened = opened"
    and d: "api_run (replicate (Suc 3) (InStandby 2)) opened
             = Some (opened\<lparr>ins := (ins opened)(2 := (ins opened 2)\<lparr>sleep_req_i := False\<rparr>)\<rparr>)"
    using t [THEN conjunct2] h by blast+
  show ?thesis unfolding b d using h a c by simp
qed

subsection \<open>Presentation position\<close>

lemma s64_u64: "s64 (u64 x) = s64 x"
  by (simp add: s64_def u64_def mod_add_left_eq)

lemma s64_id: "- (2 ^ 63) \<le> x \<Longrightarrow> x < 2 ^ 63 \<Longrightarrow> s64 x = x"
  by (simp add: s64_def)

lemma s64_range: "- (2 ^ 63) \<le> s64 x \<and> s64 x < 2 ^ 63"
  by (simp add: s64_def)

lemma u64_s64_nonneg: "0 \<le> s64 x \<Longrightarrow> u64 (s64 x) = s64 x"
  using s64_range [of x] by (simp add: u64_def)

lemma signed_frames_exact:
  assumes "- (2 ^ 63) \<le> w - k + a" "w - k + a < 2 ^ 63"
  shows "signed_frames w k a = w - k + a"
  unfolding signed_frames_def s64_u64 using assms by (intro s64_id) simp_all

lemma position_not_ready:
  assumes "standby_o (outs s p) \<or> pcm_o (outs s p) = None"
    and "halted s = None" and "\<not> lock_o (outs s p)"
  shows "out_get_presentation_position ht p s
           = Inr (upd_out p (\<lambda>out. out\<lparr>sleep_req_o := False\<rparr>) s, None, - ENOSYS)"
  using assms
  by (auto simp: out_get_presentation_position_def Let_def out_lock_def out_unlock_def
      upd_out_def fun_eq_iff returned_def)

lemma position_ready:
  assumes "\<not> standby_o (outs s p)" "pcm_o (outs s p) \<noteq> None"
    "pcm_config_o (outs s p) = Some cfg" "halted s = None" "\<not> lock_o (outs s p)"
  shows "out_get_presentation_position (HtOk avail) p s
           = (let sf = signed_frames (written (outs s p))
                         (u32 (period_size cfg * period_count cfg)) (u32 avail)
              in Inr (upd_out p (\<lambda>out. out\<lparr>sleep_req_o := False\<rparr>) s,
                      if 0 \<le> sf then Some sf else None, if 0 \<le> sf then 0 else - 1))"
  using assms
  by (auto simp: out_get_presentation_position_def Let_def out_lock_def out_unlock_def
      upd_out_def fun_eq_iff signed_frames_def u64_s64_nonneg returned_def)

text \<open>
  Claim C3. A presentation-position query whose stream mutex is free returns. On a
  stream that is in standby or has no hardware handle it fails (with \<open>-ENOSYS\<close>).
  Otherwise, with the available frames the hardware reports, it computes
  \<open>signed = written - kernel_buffer_size + available\<close> in 64-bit arithmetic and
  succeeds exactly when that value is not negative, reporting that value; a negative
  value is never reported. The 64-bit value is the mathematical one whenever that fits
  64 bits; with 10000 frames written, a kernel buffer of 4096 frames and 2000 frames
  available the position is 7904.
\<close>

theorem presentation_position:
  "(halted s = None \<and> \<not> lock_o (outs s p)
      \<and> (standby_o (outs s p) \<or> pcm_o (outs s p) = None) \<longrightarrow>
      out_get_presentation_position ht p s
        = Inr (upd_out p (\<lambda>out. out\<lparr>sleep_req_o := False\<rparr>) s, None, - ENOSYS))
   \<and> (halted s = None \<and> \<not> lock_o (outs s p)
        \<and> \<not> standby_o (outs s p) \<and> pcm_o (outs s p) \<noteq> None
        \<and> pcm_config_o (outs s p) = Some cfg \<longrightarrow>
      out_get_presentation_position (HtOk avail) p s
        = (let sf = signed_frames (written (outs s p))
                      (u32 (period_size cfg * period_count cfg)) (u32 avail)
           in Inr (upd_out p (\<lambda>out. out\<lparr>sleep_req_o := False\<rparr>) s,
                   if 0 \<le> sf then Some sf else None, if 0 \<le> sf then 0 else - 1)))
   \<and> (- (2 ^ 63) \<le> w - k + a \<and> w - k + a < 2 ^ 63 \<longrightarrow> signed_frames w k a = w - k + a)
   \<and> signed_frames 10000 4096 2000 = 7904"
  using position_not_ready [of s p ht] position_ready [of s p cfg avail]
    signed_frames_exact [of w k a]
  by (simp add: signed_frames_exact)

lemma u32_small: "0 \<le> x \<Longrightarrow> x < 2 ^ 32 \<Longrightarrow> u32 x = x"
  by (simp add: u32_def)

lemma playing_fields:
  "\<not> standby_o (outs playing 1) \<and> pcm_o (outs playing 1) = Some 7
   \<and> pcm_config_o (outs playing 1) = Some pcm_config_out \<and> written (outs playing 1) = 10000
   \<and> halted playing = None \<and> \<not> lock_o (outs playing 1)"
  by (simp add: playing_def upd_out_def upd_dev_def opened_fields zero_out_def)

lemma kernel_buffer_size_out:
  "u32 (period_size pcm_config_out * period_count pcm_config_out) = 4096"
  by (simp add: pcm_config_out_def OUT_PERIOD_SIZE_def OUT_LONG_PERIOD_COUNT_def u32_def)

theorem presentation_position_witness:
  "standby_o (outs opened 1) \<and> halted opened = None \<and> \<not> lock_o (outs opened 1)
   \<and> (\<exists>s'. out_get_presentation_position HtFail 1 opened = Inr (s', None, - ENOSYS))
   \<and> \<not> standby_o (outs playing 1) \<and> pcm_o (outs playing 1) \<noteq> None
   \<and> halted playing = None \<and> \<not> lock_o (outs playing 1)
   \<and> pcm_config_o (outs playing 1) = Some pcm_config_out
   \<and> (\<exists>s'. out_get_presentation_position (HtOk 2000) 1 playing = Inr (s', Some 7904, 0))
   \<and> signed_frames 10000 4096 2000 = 10000 - 4096 + 2000"
  using presentation_position [of opened 1 HtFail pcm_config_out 2000 10000 4096 2000]
    presentation_position [of playing 1 HtFail pcm_config_out 2000 10000 4096 2000]
    opened_standby opened_free opened_fields(5) playing_fields u32_small [of 2000]
  by (simp add: kernel_buffer_size_out Let_def)

subsection \<open>The buffer provider protocol\<close>

lemma get_next_buffer_carry:
  assumes "pcm_i (ins s p) = Some h" "buffer_i (ins s p) = Some b" "frames_in (ins s p) \<noteq> 0"
  shows "get_next_buffer rd p buf s
           = (s, buf\<lparr>raw := Some (u32 (period_size (pcm_config_i (ins s p))
                                          - frames_in (ins s p))),
                      frame_count := min (frame_count buf) (frames_in (ins s p))\<rparr>,
              read_status (ins s p))"
  using assms by (simp add: get_next_buffer_def Let_def min_def)

lemma get_next_buffer_refill:
  assumes "pcm_i (ins s p) = Some h" "buffer_i (ins s p) = Some b" "frames_in (ins s p) = 0"
  shows "get_next_buffer 0 p buf s
           = (upd_in p (\<lambda>i. i\<lparr>read_status := 0, frames_in := period_size (pcm_config_i i)\<rparr>)
                (emit (PcmRead (pcm_i (ins s p)) (buffer_size (ins s p))) s),
              buf\<lparr>raw := Some 0,
                  frame_count := min (frame_count buf) (period_size (pcm_config_i (ins s p)))\<rparr>,
              0)"
  using assms by (simp add: get_next_buffer_def Let_def min_def upd_in_def emit_def u32_def)

lemma get_next_buffer_read_error:
  assumes "pcm_i (ins s p) = Some h" "frames_in (ins s p) = 0" "rd \<noteq> 0"
  shows "get_next_buffer rd p buf s
           = (upd_in p (\<lambda>i. i\<lparr>read_status := rd\<rparr>)
                (emit (PcmRead (pcm_i (ins s p)) (buffer_size (ins s p))) s),
              buf\<lparr>raw := None, frame_count := 0\<rparr>, rd)"
  using assms by (simp add: get_next_buffer_def)

lemma get_next_buffer_null_buffer:
  assumes "pcm_i (ins s p) = Some h" "buffer_i (ins s p) = None" "frames_in (ins s p) = 0"
    and "channels (pcm_config_i (ins s p)) = 2" "1 < period_size (pcm_config_i (ins s p))"
    and "halted s = None"
  shows "halted (fst (get_next_buffer 0 p buf s)) = Some NullDeref"
  using assms by (simp add: get_next_buffer_def Let_def upd_in_def emit_def halt_def)

lemma pcm_reads_emit_read [simp]: "pcm_reads (emit (PcmRead h n) s) = pcm_reads s + 1"
  by (simp add: pcm_reads_def emit_def)

lemma pcm_reads_upd_in [simp]: "pcm_reads (upd_in p f s) = pcm_reads s"
  by (simp add: pcm_reads_def upd_in_def)

lemma provider_pull_step:
  assumes ok: "provider_ok p s" and n: "0 \<le> n"
  shows "provider_ok p (fst (provider_pull p (n, 0) s))
         \<and> pcm_config_i (ins (fst (provider_pull p (n, 0) s)) p) = pcm_config_i (ins s p)
         \<and> halted (fst (provider_pull p (n, 0) s)) = halted s
         \<and> pcm_reads (fst (provider_pull p (n, 0) s)) * period_size (pcm_config_i (ins s p))
             = pcm_reads s * period_size (pcm_config_i (ins s p))
               + snd (provider_pull p (n, 0) s)
               + frames_in (ins (fst (provider_pull p (n, 0) s)) p) - frames_in (ins s p)"
proof (cases "frames_in (ins s p) = 0")
  case True
  from ok obtain h b where pcm: "pcm_i (ins s p) = Some h" and bf: "buffer_i (ins s p) = Some b"
    by (auto simp: provider_ok_def)
  show ?thesis
    using ok n True
    by (simp add: provider_pull_def get_next_buffer_refill [OF pcm bf True] provider_ok_def
        release_buffer_def upd_in_def emit_def u32_def min_def algebra_simps pcm_reads_def)
next
  case False
  from ok obtain h b where pcm: "pcm_i (ins s p) = Some h" and bf: "buffer_i (ins s p) = Some b"
    by (auto simp: provider_ok_def)
  show ?thesis
    using ok n False
    by (simp add: provider_pull_def get_next_buffer_carry [OF pcm bf False] provider_ok_def
        release_buffer_def upd_in_def u32_def min_def pcm_reads_def)
qed

lemma provider_pulls_invariant:
  assumes "provider_ok p s" and "\<forall>c\<in>set cs. 0 \<le> fst c \<and> snd c = 0"
  shows "provider_ok p (fst (provider_pulls p cs s))
         \<and> pcm_config_i (ins (fst (provider_pulls p cs s)) p) = pcm_config_i (ins s p)
         \<and> halted (fst (provider_pulls p cs s)) = halted s
         \<and> (pcm_reads (fst (provider_pulls p cs s)) - pcm_reads s)
               * period_size (pcm_config_i (ins s p))
             = snd (provider_pulls p cs s)
               + frames_in (ins (fst (provider_pulls p cs s)) p) - frames_in (ins s p)"
  using assms
proof (induction cs arbitrary: s)
  case Nil
  then show ?case by simp
next
  case (Cons c cs)
  obtain n where c: "c = (n, 0)" and n: "0 \<le> n"
    using Cons.prems(2) by (cases c) auto
  let ?s1 = "fst (provider_pull p c s)"
  have step: "provider_ok p ?s1"
    "pcm_config_i (ins ?s1 p) = pcm_config_i (ins s p)"
    "halted ?s1 = halted s"
    "pcm_reads ?s1 * period_size (pcm_config_i (ins s p))
       = pcm_reads s * period_size (pcm_config_i (ins s p))
         + snd (provider_pull p c s) + frames_in (ins ?s1 p) - frames_in (ins s p)"
    using provider_pull_step [OF Cons.prems(1) n] unfolding c by simp_all
  have rest: "\<forall>c\<in>set cs. 0 \<le> fst c \<and> snd c = 0" using Cons.prems(2) by simp
  note ih = Cons.IH [OF step(1) rest]
  have unf: "provider_pulls p (c # cs) s
               = (fst (provider_pulls p cs ?s1),
                  snd (provider_pull p c s) + snd (provider_pulls p cs ?s1))"
    by (simp add: split_beta Let_def)
  show ?case
    unfolding unf fst_conv snd_conv
    using ih step by (simp add: algebra_simps)
qed

lemma release_buffer_frames_in:
  "frames_in (ins (release_buffer p buf s) p) = u32 (frames_in (ins s p) - frame_count buf)"
  by (simp add: release_buffer_def upd_in_def)

lemma start_input_stream_buffer:
  assumes "pcm_open env = PcmReady h"
  shows "buffer_size (ins (fst (start_input_stream env p s)) p)
           = pcm_frames_to_bytes (pcm_config_i (ins s p)) (period_size (pcm_config_i (ins s p)))
         \<and> frames_in (ins (fst (start_input_stream env p s)) p) = 0
         \<and> buffer_i (ins (fst (start_input_stream env p s)) p) = malloc env"
  using assms
  by (simp add: start_input_stream_def Let_def upd_in_def upd_dev_def emit_def
      split: option.splits)

text \<open>
  Claim C7. With an open handle and an allocated raw buffer, \<open>get_next_buffer\<close> leaves
  the state and the hardware trace untouched while the carry-count is not zero, and
  returns the view at the offset \<open>period_size - carry-count\<close>, computed in unsigned
  32-bit arithmetic, clipped to the smaller of the requested frames and the
  carry-count; while the carry-count is at most the period size that offset is the
  start of the unconsumed tail. With a carry-count of zero it performs exactly one
  hardware read of the raw buffer, which \<open>start_input_stream\<close> sized to one full
  period, sets the carry-count to the period size and clips the view likewise.
  \<open>release_buffer\<close> takes the consumed frames off the carry-count. Hence over any
  sequence of pulls whose reads succeed, no pull faults and the frames read from the
  hardware (reads times period size) are exactly the frames delivered plus the change
  of the carry-count: one read per exhaustion of the carry buffer, and never a read
  while frames are carried.
\<close>

theorem buffer_provider_protocol:
  "(pcm_i (ins s p) = Some h \<and> buffer_i (ins s p) = Some b \<and> frames_in (ins s p) \<noteq> 0 \<longrightarrow>
      get_next_buffer rd p buf s
        = (s, buf\<lparr>raw := Some (u32 (period_size (pcm_config_i (ins s p))
                                       - frames_in (ins s p))),
                   frame_count := min (frame_count buf) (frames_in (ins s p))\<rparr>,
           read_status (ins s p))
      \<and> (0 \<le> frames_in (ins s p)
           \<and> frames_in (ins s p) \<le> period_size (pcm_config_i (ins s p))
           \<and> period_size (pcm_config_i (ins s p)) < 2 ^ 32 \<longrightarrow>
         raw (fst (snd (get_next_buffer rd p buf s)))
           = Some (period_size (pcm_config_i (ins s p)) - frames_in (ins s p))))
   \<and> (pcm_i (ins s p) = Some h \<and> buffer_i (ins s p) = Some b \<and> frames_in (ins s p) = 0 \<longrightarrow>
      get_next_buffer 0 p buf s
        = (upd_in p (\<lambda>i. i\<lparr>read_status := 0, frames_in := period_size (pcm_config_i i)\<rparr>)
             (emit (PcmRead (Some h) (buffer_size (ins s p))) s),
           buf\<lparr>raw := Some 0,
               frame_count := min (frame_count buf) (period_size (pcm_config_i (ins s p)))\<rparr>,
           0))
   \<and> (pcm_open env = PcmReady h' \<longrightarrow>
      buffer_size (ins (fst (start_input_stream env p s)) p)
        = pcm_frames_to_bytes (pcm_config_i (ins s p)) (period_size (pcm_config_i (ins s p)))
      \<and> frames_in (ins (fst (start_input_stream env p s)) p) = 0)
   \<and> frames_in (ins (release_buffer p buf s) p) = u32 (frames_in (ins s p) - frame_count buf)
   \<and> (0 \<le> frame_count buf \<and> frame_count buf \<le> frames_in (ins s p)
        \<and> frames_in (ins s p) < 2 ^ 32 \<longrightarrow>
      frames_in (ins (release_buffer p buf s) p) = frames_in (ins s p) - frame_count buf)
   \<and> (provider_ok p s \<and> (\<forall>c\<in>set cs. 0 \<le> fst c \<and> snd c = 0) \<longrightarrow>
      provider_ok p (fst (provider_pulls p cs s))
      \<and> halted (fst (provider_pulls p cs s)) = halted s
      \<and> (pcm_reads (fst (provider_pulls p cs s)) - pcm_reads s)
            * period_size (pcm_config_i (ins s p))
          = snd (provider_pulls p cs s)
            + frames_in (ins (fst (provider_pulls p cs s)) p) - frames_in (ins s p))"
proof -
  have rel: "0 \<le> frame_count buf \<and> frame_count buf \<le> frames_in (ins s p)
               \<and> frames_in (ins s p) < 2 ^ 32 \<longrightarrow>
             u32 (frames_in (ins s p) - frame_count buf) = frames_in (ins s p) - frame_count buf"
    by (simp add: u32_def)
  have off: "0 \<le> frames_in (ins s p)
           \<and> frames_in (ins s p) \<le> period_size (pcm_config_i (ins s p))
           \<and> period_size (pcm_config_i (ins s p)) < 2 ^ 32 \<longrightarrow>
             u32 (period_size (pcm_config_i (ins s p)) - frames_in (ins s p))
               = period_size (pcm_config_i (ins s p)) - frames_in (ins s p)"
    by (simp add: u32_def)
  have a: "pcm_i (ins s p) = Some h \<and> buffer_i (ins s p) = Some b \<and> frames_in (ins s p) \<noteq> 0 \<longrightarrow>
      get_next_buffer rd p buf s
        = (s, buf\<lparr>raw := Some (u32 (period_size (pcm_config_i (ins s p))
                                       - frames_in (ins s p))),
                   frame_count := min (frame_count buf) (frames_in (ins s p))\<rparr>,
           read_status (ins s p))
      \<and> (0 \<le> frames_in (ins s p)
           \<and> frames_in (ins s p) \<le> period_size (pcm_config_i (ins s p))
           \<and> period_size (pcm_config_i (ins s p)) < 2 ^ 32 \<longrightarrow>
         raw (fst (snd (get_next_buffer rd p buf s)))
           = Some (period_size (pcm_config_i (ins s p)) - frames_in (ins s p)))"
    using get_next_buffer_carry [of s p h b rd buf] off by simp
  have b: "pcm_i (ins s p) = Some h \<and> buffer_i (ins s p) = Some b \<and> frames_in (ins s p) = 0 \<longrightarrow>
      get_next_buffer 0 p buf s
        = (upd_in p (\<lambda>i. i\<lparr>read_status := 0, frames_in := period_size (pcm_config_i i)\<rparr>)
             (emit (PcmRead (Some h) (buffer_size (ins s p))) s),
           buf\<lparr>raw := Some 0,
               frame_count := min (frame_count buf) (period_size (pcm_config_i (ins s p)))\<rparr>,
           0)"
    using get_next_buffer_refill [of s p h b buf] by simp
  have c: "pcm_open env = PcmReady h' \<longrightarrow>
      buffer_size (ins (fst (start_input_stream env p s)) p)
        = pcm_frames_to_bytes (pcm_config_i (ins s p)) (period_size (pcm_config_i (ins s p)))
      \<and> frames_in (ins (fst (start_input_stream env p s)) p) = 0"
    using start_input_stream_buffer [of env h' p s] by simp
  have d: "provider_ok p s \<and> (\<forall>c\<in>set cs. 0 \<le> fst c \<and> snd c = 0) \<longrightarrow>
      provider_ok p (fst (provider_pulls p cs s))
      \<and> halted (fst (provider_pulls p cs s)) = halted s
      \<and> (pcm_reads (fst (provider_pulls p cs s)) - pcm_reads s)
            * period_size (pcm_config_i (ins s p))
          = snd (provider_pulls p cs s)
            + frames_in (ins (fst (provider_pulls p cs s)) p) - frames_in (ins s p)"
    using provider_pulls_invariant [of p s cs] by simp
  show ?thesis
    using a b c d rel by (simp only: release_buffer_frames_in)
qed

lemma capturing_fields:
  "pcm_i (ins capturing 2) = Some 5 \<and> frames_in (ins capturing 2) = 0
   \<and> buffer_i (ins capturing 2) = Some 6
   \<and> pcm_config_i (ins capturing 2) = pcm_config_in \<and> buffer_size (ins capturing 2) = 4096
   \<and> events capturing = [PcmOpenIn 5 True, Malloc 4096 (Some 6)]
   \<and> halted capturing = None"
  by (simp add: capturing_def start_input_stream_def opened_fields Let_def
      upd_in_def upd_dev_def emit_def in_get_sample_rate_def zero_in_def
      pcm_config_in_def pcm_frames_to_bytes_def u32_def IN_SAMPLING_RATE_def
      IN_PERIOD_SIZE_def)

lemma capturing_ok: "provider_ok 2 capturing"
  using capturing_fields
  by (simp add: provider_ok_def pcm_config_in_def IN_PERIOD_SIZE_def)

lemma capturing_pull:
  "frames_in (ins (fst (provider_pull 2 (300, 0) capturing)) 2) = 724
   \<and> pcm_i (ins (fst (provider_pull 2 (300, 0) capturing)) 2) = Some 5
   \<and> buffer_i (ins (fst (provider_pull 2 (300, 0) capturing)) 2) = Some 6
   \<and> pcm_config_i (ins (fst (provider_pull 2 (300, 0) capturing)) 2) = pcm_config_in"
  using capturing_fields
    get_next_buffer_refill [of capturing 2 5 6 "\<lparr>raw = None, frame_count = 300\<rparr>"]
  by (simp add: provider_pull_def release_buffer_def upd_in_def emit_def u32_def
      pcm_config_in_def IN_PERIOD_SIZE_def)

theorem buffer_provider_protocol_witness:
  "pcm_i (ins capturing 2) = Some 5 \<and> buffer_i (ins capturing 2) = Some 6
   \<and> frames_in (ins capturing 2) = 0
   \<and> events (fst (get_next_buffer 0 2 \<lparr>raw = None, frame_count = 300\<rparr> capturing))
       = events capturing @ [PcmRead (Some 5) 4096]
   \<and> frame_count (fst (snd (get_next_buffer 0 2 \<lparr>raw = None, frame_count = 300\<rparr> capturing)))
       = 300
   \<and> frames_in (ins (fst (provider_pull 2 (300, 0) capturing)) 2) = 724
   \<and> fst (get_next_buffer 0 2 \<lparr>raw = None, frame_count = 900\<rparr>
            (fst (provider_pull 2 (300, 0) capturing)))
       = fst (provider_pull 2 (300, 0) capturing)
   \<and> frame_count (fst (snd (get_next_buffer 0 2 \<lparr>raw = None, frame_count = 900\<rparr>
            (fst (provider_pull 2 (300, 0) capturing)))))
       = 724
   \<and> raw (fst (snd (get_next_buffer 0 2 \<lparr>raw = None, frame_count = 900\<rparr>
            (fst (provider_pull 2 (300, 0) capturing)))))
       = Some 300
   \<and> provider_ok 2 capturing
   \<and> halted (fst (provider_pulls 2 [(300, 0), (300, 0), (300, 0), (300, 0), (300, 0)]
                     capturing)) = None
   \<and> (pcm_reads (fst (provider_pulls 2 [(300, 0), (300, 0), (300, 0), (300, 0), (300, 0)]
                         capturing)) - pcm_reads capturing) * 1024
       = snd (provider_pulls 2 [(300, 0), (300, 0), (300, 0), (300, 0), (300, 0)] capturing)
         + frames_in (ins (fst (provider_pulls 2 [(300, 0), (300, 0), (300, 0), (300, 0),
                                  (300, 0)] capturing)) 2)"
proof -
  let ?cs = "[(300, 0), (300, 0), (300, 0), (300, 0), (300::int, 0::int)]"
  let ?env = "\<lparr>pcm_open = PcmReady 5, create_resampler = None, malloc = Some 6\<rparr>"
  let ?t = "fst (provider_pull 2 (300, 0) capturing)"
  note x = buffer_provider_protocol [where s = capturing and p = 2 and h = 5 and b = 6
      and rd = 0 and buf = "\<lparr>raw = None, frame_count = 300\<rparr>" and env = ?env and h' = 5
      and cs = ?cs]
  note y = buffer_provider_protocol [where s = ?t and p = 2 and h = 5 and b = 6
      and rd = 0 and buf = "\<lparr>raw = None, frame_count = 900\<rparr>" and env = ?env and h' = 5
      and cs = "[]"]
  have f: "pcm_i (ins capturing 2) = Some 5" "buffer_i (ins capturing 2) = Some 6"
    "frames_in (ins capturing 2) = 0" "pcm_config_i (ins capturing 2) = pcm_config_in"
    "buffer_size (ins capturing 2) = 4096" "halted capturing = None"
    using capturing_fields by simp_all
  have g: "frames_in (ins ?t 2) = 724" "pcm_i (ins ?t 2) = Some 5"
    "buffer_i (ins ?t 2) = Some 6" "pcm_config_i (ins ?t 2) = pcm_config_in"
    using capturing_pull by simp_all
  have ps: "period_size pcm_config_in = 1024"
    by (simp add: pcm_config_in_def IN_PERIOD_SIZE_def)
  have r1: "get_next_buffer 0 2 \<lparr>raw = None, frame_count = 300\<rparr> capturing
        = (upd_in 2 (\<lambda>i. i\<lparr>read_status := 0, frames_in := period_size (pcm_config_i i)\<rparr>)
             (emit (PcmRead (Some 5) (buffer_size (ins capturing 2))) capturing),
           \<lparr>raw = None, frame_count = 300\<rparr>\<lparr>raw := Some 0,
               frame_count := min (frame_count \<lparr>raw = None, frame_count = 300\<rparr>)
                                (period_size (pcm_config_i (ins capturing 2)))\<rparr>,
           0)"
    using x [THEN conjunct2, THEN conjunct1] f(1,2,3) by blast
  have r2: "get_next_buffer 0 2 \<lparr>raw = None, frame_count = 900\<rparr> ?t
        = (?t, \<lparr>raw = None, frame_count = 900\<rparr>\<lparr>raw := Some (u32 (period_size (pcm_config_i (ins ?t 2))
                                       - frames_in (ins ?t 2))),
                   frame_count := min (frame_count \<lparr>raw = None, frame_count = 900\<rparr>)
                                    (frames_in (ins ?t 2))\<rparr>,
           read_status (ins ?t 2))"
    and r3: "raw (fst (snd (get_next_buffer 0 2 \<lparr>raw = None, frame_count = 900\<rparr> ?t)))
           = Some (period_size (pcm_config_i (ins ?t 2)) - frames_in (ins ?t 2))"
    using y [THEN conjunct1] g ps by (simp_all add: u32_def)
  have all: "\<forall>c\<in>set ?cs. 0 \<le> fst c \<and> snd c = 0" by simp
  have r4: "halted (fst (provider_pulls 2 ?cs capturing)) = halted capturing"
    and r5: "(pcm_reads (fst (provider_pulls 2 ?cs capturing)) - pcm_reads capturing)
            * period_size (pcm_config_i (ins capturing 2))
          = snd (provider_pulls 2 ?cs capturing)
            + frames_in (ins (fst (provider_pulls 2 ?cs capturing)) 2)
            - frames_in (ins capturing 2)"
    using x [THEN conjunct2, THEN conjunct2, THEN conjunct2, THEN conjunct2, THEN conjunct2]
      capturing_ok all by blast+
  have e1: "events (fst (get_next_buffer 0 2 \<lparr>raw = None, frame_count = 300\<rparr> capturing))
       = events capturing @ [PcmRead (Some 5) 4096]"
    unfolding r1 by (simp add: upd_in_def emit_def f)
  have e2: "frame_count (fst (snd (get_next_buffer 0 2 \<lparr>raw = None, frame_count = 300\<rparr>
                                     capturing))) = 300"
    unfolding r1 by (simp add: f ps)
  have e3: "fst (get_next_buffer 0 2 \<lparr>raw = None, frame_count = 900\<rparr> ?t) = ?t"
    unfolding r2 by simp
  have e4: "frame_count (fst (snd (get_next_buffer 0 2 \<lparr>raw = None, frame_count = 900\<rparr> ?t)))
              = 724"
    unfolding r2 by (simp add: g)
  have e5: "raw (fst (snd (get_next_buffer 0 2 \<lparr>raw = None, frame_count = 900\<rparr> ?t)))
              = Some 300"
    unfolding r3 by (simp add: g ps)
  have e6: "halted (fst (provider_pulls 2 ?cs capturing)) = None"
    unfolding r4 by (rule f(6))
  have e7: "(pcm_reads (fst (provider_pulls 2 ?cs capturing)) - pcm_reads capturing) * 1024
       = snd (provider_pulls 2 ?cs capturing)
         + frames_in (ins (fst (provider_pulls 2 ?cs capturing)) 2)"
    using r5 unfolding f(3,4) ps by simp
  show ?thesis
    using f(1,2,3) g(1) e1 e2 e3 e4 e5 e6 e7 capturing_ok by blast
qed

lemma capturing_five_pulls:
  "snd (provider_pulls 2 [(300, 0), (300, 0), (300, 0), (300, 0), (300, 0)] capturing) = 1324"
  "pcm_reads (fst (provider_pulls 2 [(300, 0), (300, 0), (300, 0), (300, 0), (300, 0)]
                     capturing)) = 2"
  by code_simp+

subsection \<open>The pacing loop\<close>

lemma MAX_WRITE_SLEEP_US_val: "MAX_WRITE_SLEEP_US = 46439"
  by (simp add: MAX_WRITE_SLEEP_US_def OUT_PERIOD_SIZE_def OUT_SHORT_PERIOD_COUNT_def
      OUT_SAMPLING_RATE_def)

lemma pacing_loop_invariant:
  "tot \<le> MAX_WRITE_SLEEP_US \<Longrightarrow> (\<forall>x\<in>set slept. 0 \<le> x) \<Longrightarrow>
   (case pacing_loop ht cfg cwt n kf tot slept of
      (kf', tot', slept', n') \<Rightarrow>
        sum_list slept' - sum_list slept = min tot' MAX_WRITE_SLEEP_US - tot
        \<and> (\<forall>x\<in>set slept'. 0 \<le> x)
        \<and> 2000 * (int n' - int n - 1) \<le> MAX_WRITE_SLEEP_US - tot
        \<and> tot \<le> tot')"
proof (induction ht cfg cwt n kf tot slept rule: pacing_loop.induct)
  case (1 ht cfg cwt n kf tot slept)
  show ?case
  proof (cases "ht n")
    case HtFail
    then show ?thesis using "1.prems" by (subst pacing_loop.simps) simp
  next
    case (HtOk avail)
    define kf1 where "kf1 = s32 (pcm_get_buffer_size cfg - avail)"
    define sl where "sl = s32 (((kf1 - cwt) * 1000000) div rate cfg)"
    show ?thesis
    proof (cases "kf1 > cwt \<and> \<not> sl < MIN_WRITE_SLEEP_US \<and> tot + sl \<le> MAX_WRITE_SLEEP_US")
      case True
      have ih: "case pacing_loop ht cfg cwt (Suc n) kf1 (tot + sl) (slept @ [sl]) of
                  (kf', tot', slept', n') \<Rightarrow>
                    sum_list slept' - sum_list (slept @ [sl])
                      = min tot' MAX_WRITE_SLEEP_US - (tot + sl)
                    \<and> (\<forall>x\<in>set slept'. 0 \<le> x)
                    \<and> 2000 * (int n' - int (Suc n) - 1) \<le> MAX_WRITE_SLEEP_US - (tot + sl)
                    \<and> tot + sl \<le> tot'"
        using "1.IH" [OF HtOk kf1_def _ sl_def _ refl refl] True "1.prems"
        by (simp add: MIN_WRITE_SLEEP_US_def)
      have unf: "pacing_loop ht cfg cwt n kf tot slept
                   = pacing_loop ht cfg cwt (Suc n) kf1 (tot + sl) (slept @ [sl])"
        using True HtOk by (subst pacing_loop.simps) (simp add: kf1_def sl_def Let_def)
      show ?thesis
        unfolding unf using ih True by (auto simp: MIN_WRITE_SLEEP_US_def split: prod.splits)
    next
      case False
      then show ?thesis
        using HtOk "1.prems"
        by (subst pacing_loop.simps)
           (auto simp: kf1_def sl_def Let_def MIN_WRITE_SLEEP_US_def)
    qed
  qed
qed


lemma pacing_loop_exit_min:
  assumes "ht n = HtOk avail" and "cwt < s32 (pcm_get_buffer_size cfg - avail)"
    and "s32 (((s32 (pcm_get_buffer_size cfg - avail) - cwt) * 1000000) div rate cfg)
           < MIN_WRITE_SLEEP_US"
  shows "pacing_loop ht cfg cwt n kf tot slept
           = (s32 (pcm_get_buffer_size cfg - avail), tot, slept, Suc n)"
  using assms by (subst pacing_loop.simps) (simp add: Let_def)

lemma pacing_loop_exit_max:
  assumes "ht n = HtOk avail" and "cwt < s32 (pcm_get_buffer_size cfg - avail)"
    and "\<not> s32 (((s32 (pcm_get_buffer_size cfg - avail) - cwt) * 1000000) div rate cfg)
           < MIN_WRITE_SLEEP_US"
    and "MAX_WRITE_SLEEP_US
           < tot + s32 (((s32 (pcm_get_buffer_size cfg - avail) - cwt) * 1000000) div rate cfg)"
  shows "pacing_loop ht cfg cwt n kf tot slept
           = (s32 (pcm_get_buffer_size cfg - avail),
              tot + s32 (((s32 (pcm_get_buffer_size cfg - avail) - cwt) * 1000000) div rate cfg),
              slept @ [MAX_WRITE_SLEEP_US - tot], Suc n)"
  using assms by (subst pacing_loop.simps) (simp add: Let_def)

lemma out_write_pace_events:
  "events (out_write_pace env cfg p s)
     = events s @ map Usleep (fst (snd (snd (pacing_loop (ow_htimestamp env) cfg
                     (cur_write_threshold (outs s p)) 0 (ow_kernel_frames env) 0 []))))"
  by (simp add: out_write_pace_def Let_def split_beta upd_out_def)

text \<open>
  Claim C8. The pacing loop of \<open>out_write\<close> terminates, whatever the hardware answers:
  it makes at most 24 rounds. It ends without sleeping when a requested sleep is below
  \<open>MIN_WRITE_SLEEP_US\<close> (2000 us); when the accumulated counter exceeds
  \<open>MAX_WRITE_SLEEP_US\<close> (46439 us, the playing time of two periods) it ends after a
  last sleep clamped to what was left of that bound. No sleep is negative, and the time
  actually slept is the smaller of the counter and the bound, so it never exceeds the
  bound. These sleeps are all that the pacing adds to the hardware trace.
\<close>

theorem pacing_loop_bounded:
  "(case pacing_loop ht cfg cwt 0 kf 0 [] of
      (kf', tot', slept', rounds) \<Rightarrow>
        rounds \<le> 24
        \<and> sum_list slept' = min tot' MAX_WRITE_SLEEP_US
        \<and> sum_list slept' \<le> MAX_WRITE_SLEEP_US
        \<and> (\<forall>x\<in>set slept'. 0 \<le> x))
   \<and> (ht n = HtOk avail \<and> cwt < s32 (pcm_get_buffer_size cfg - avail)
        \<and> s32 (((s32 (pcm_get_buffer_size cfg - avail) - cwt) * 1000000) div rate cfg)
             < MIN_WRITE_SLEEP_US \<longrightarrow>
      pacing_loop ht cfg cwt n kf tot slept
        = (s32 (pcm_get_buffer_size cfg - avail), tot, slept, Suc n))
   \<and> (ht n = HtOk avail \<and> cwt < s32 (pcm_get_buffer_size cfg - avail)
        \<and> \<not> s32 (((s32 (pcm_get_buffer_size cfg - avail) - cwt) * 1000000) div rate cfg)
             < MIN_WRITE_SLEEP_US
        \<and> MAX_WRITE_SLEEP_US
             < tot + s32 (((s32 (pcm_get_buffer_size cfg - avail) - cwt) * 1000000)
                            div rate cfg) \<longrightarrow>
      pacing_loop ht cfg cwt n kf tot slept
        = (s32 (pcm_get_buffer_size cfg - avail),
           tot + s32 (((s32 (pcm_get_buffer_size cfg - avail) - cwt) * 1000000) div rate cfg),
           slept @ [MAX_WRITE_SLEEP_US - tot], Suc n))
   \<and> events (out_write_pace env cfg p s)
       = events s @ map Usleep (fst (snd (snd (pacing_loop (ow_htimestamp env) cfg
                       (cur_write_threshold (outs s p)) 0 (ow_kernel_frames env) 0 []))))
   \<and> MIN_WRITE_SLEEP_US = 2000 \<and> MAX_WRITE_SLEEP_US = 46439"
proof -
  have inv: "case pacing_loop ht cfg cwt 0 kf 0 [] of
      (kf', tot', slept', rounds) \<Rightarrow>
        rounds \<le> 24
        \<and> sum_list slept' = min tot' MAX_WRITE_SLEEP_US
        \<and> sum_list slept' \<le> MAX_WRITE_SLEEP_US
        \<and> (\<forall>x\<in>set slept'. 0 \<le> x)"
    using pacing_loop_invariant [where tot = 0 and slept = "[]" and ht = ht and cfg = cfg
        and cwt = cwt and n = 0 and kf = kf]
    by (auto simp: MAX_WRITE_SLEEP_US_val split: prod.splits)
  show ?thesis
    using inv
      pacing_loop_exit_min [where ht = ht and n = n and avail = avail and cwt = cwt
        and cfg = cfg and kf = kf and tot = tot and slept = slept]
      pacing_loop_exit_max [where ht = ht and n = n and avail = avail and cwt = cwt
        and cfg = cfg and kf = kf and tot = tot and slept = slept]
      out_write_pace_events [of env cfg p s]
    by (simp add: MAX_WRITE_SLEEP_US_val MIN_WRITE_SLEEP_US_def)
qed

lemma pacing_examples:
  "pacing_loop (\<lambda>_. HtOk 0) pcm_config_out 2048 0 0 0 [] = (4096, 92878, [46439, 0], 2)"
  "pacing_loop (\<lambda>_. HtOk 4000) pcm_config_out 50 0 0 0 [] = (96, 0, [], 1)"
  "pacing_loop (\<lambda>_. HtOk 0) pcm_config_out 0 0 0 0 [] = (4096, 92879, [46439], 1)"
  by code_simp+


lemmas pacing_eval =
  s32_def u32_def pcm_get_buffer_size_def pcm_config_out_def OUT_PERIOD_SIZE_def
  OUT_LONG_PERIOD_COUNT_def OUT_SAMPLING_RATE_def

theorem pacing_loop_bounded_witness:
  "(case pacing_loop (\<lambda>_. HtOk 0) pcm_config_out 2048 0 0 0 [] of
      (kf', tot', slept', rounds) \<Rightarrow>
        rounds \<le> 24 \<and> sum_list slept' \<le> MAX_WRITE_SLEEP_US \<and> (\<forall>x\<in>set slept'. 0 \<le> x))
   \<and> 50 < s32 (pcm_get_buffer_size pcm_config_out - 4000)
   \<and> s32 (((s32 (pcm_get_buffer_size pcm_config_out - 4000) - 50) * 1000000)
             div rate pcm_config_out) < MIN_WRITE_SLEEP_US
   \<and> pacing_loop (\<lambda>_. HtOk 4000) pcm_config_out 50 0 0 0 [] = (96, 0, [], 1)
   \<and> MAX_WRITE_SLEEP_US
        < 0 + s32 (((s32 (pcm_get_buffer_size pcm_config_out - 0) - 0) * 1000000)
                     div rate pcm_config_out)
   \<and> pacing_loop (\<lambda>_. HtOk 0) pcm_config_out 0 0 0 0 [] = (4096, 92879, [46439], 1)"
proof -
  note a = pacing_loop_bounded [where ht = "\<lambda>_. HtOk 0" and cfg = pcm_config_out
      and cwt = 2048 and kf = 0 and n = 0 and avail = 0 and tot = 0 and slept = "[]"
      and env = undefined and p = 0 and s = adev_open]
  note b = pacing_loop_bounded [where ht = "\<lambda>_. HtOk 4000" and cfg = pcm_config_out
      and cwt = 50 and kf = 0 and n = 0 and avail = 4000 and tot = 0 and slept = "[]"
      and env = undefined and p = 0 and s = adev_open]
  note c = pacing_loop_bounded [where ht = "\<lambda>_. HtOk 0" and cfg = pcm_config_out
      and cwt = 0 and kf = 0 and n = 0 and avail = 0 and tot = 0 and slept = "[]"
      and env = undefined and p = 0 and s = adev_open]
  have h1: "50 < s32 (pcm_get_buffer_size pcm_config_out - 4000)"
    and h2: "s32 (((s32 (pcm_get_buffer_size pcm_config_out - 4000) - 50) * 1000000)
               div rate pcm_config_out) < MIN_WRITE_SLEEP_US"
    by (simp_all add: pacing_eval MIN_WRITE_SLEEP_US_def)
  have h3: "0 < s32 (pcm_get_buffer_size pcm_config_out - 0)"
    and h4: "\<not> s32 (((s32 (pcm_get_buffer_size pcm_config_out - 0) - 0) * 1000000)
               div rate pcm_config_out) < MIN_WRITE_SLEEP_US"
    and h5: "MAX_WRITE_SLEEP_US
        < 0 + s32 (((s32 (pcm_get_buffer_size pcm_config_out - 0) - 0) * 1000000)
                     div rate pcm_config_out)"
    by (simp_all add: pacing_eval MIN_WRITE_SLEEP_US_def MAX_WRITE_SLEEP_US_val)
  have r1: "case pacing_loop (\<lambda>_. HtOk 0) pcm_config_out 2048 0 0 0 [] of
      (kf', tot', slept', rounds) \<Rightarrow>
        rounds \<le> 24 \<and> sum_list slept' \<le> MAX_WRITE_SLEEP_US \<and> (\<forall>x\<in>set slept'. 0 \<le> x)"
    using a [THEN conjunct1] by (simp add: split_beta)
  have r2: "pacing_loop (\<lambda>_. HtOk 4000) pcm_config_out 50 0 0 0 [] = (96, 0, [], 1)"
    using b [THEN conjunct2, THEN conjunct1] h1 h2 by (simp add: pacing_eval)
  have r3: "pacing_loop (\<lambda>_. HtOk 0) pcm_config_out 0 0 0 0 [] = (4096, 92879, [46439], 1)"
    using c [THEN conjunct2, THEN conjunct2, THEN conjunct1] h3 h4 h5
    by (simp add: pacing_eval MAX_WRITE_SLEEP_US_val)
  show ?thesis using r1 r2 r3 h1 h2 h5 by blast
qed

subsection \<open>Threshold smoothing\<close>

lemma s32_u32_add: "s32 (u32 x + y) = s32 (x + y)"
  by (simp add: s32_def u32_def) (metis add.assoc mod_add_left_eq)

lemma s32_u32_sub: "s32 (u32 x - y) = s32 (x - y)"
  using s32_u32_add [of x "- y"] by simp

lemma s32_id: "- (2 ^ 31) \<le> x \<Longrightarrow> x < 2 ^ 31 \<Longrightarrow> s32 x = x"
  by (simp add: s32_def)

lemma smooth_threshold_step:
  assumes "\<bar>cur\<bar> \<le> 2 ^ 30" "\<bar>wt\<bar> \<le> 2 ^ 30" "0 \<le> ps" "ps < 2 ^ 32" "cur \<noteq> wt"
  shows "smooth_threshold ps wt cur kf
           = (if cur > wt then max wt (cur - ps div 4) else min wt (cur + ps div 4))"
proof -
  have q: "0 \<le> ps div 4" "ps div 4 < 2 ^ 30" using assms(3,4) by simp_all
  have a: "s32 (u32 cur - ps div 4) = cur - ps div 4"
    unfolding s32_u32_sub using assms(1) q by (intro s32_id) simp_all
  have b: "s32 (u32 cur + ps div 4) = cur + ps div 4"
    unfolding s32_u32_add using assms(1) q by (intro s32_id) simp_all
  show ?thesis
    using assms(5) by (simp add: smooth_threshold_def a b Let_def max_def min_def)
qed

lemma smooth_threshold_run:
  assumes "\<bar>wt\<bar> \<le> 2 ^ 30" "0 \<le> ps" "ps < 2 ^ 32" "0 < ps div 4"
  shows "\<bar>cur\<bar> \<le> 2 ^ 30 \<Longrightarrow>
         (kfs = [] \<longrightarrow> cur = wt) \<Longrightarrow>
         (kfs \<noteq> [] \<longrightarrow> (int (length kfs) - 1) * (ps div 4) < \<bar>wt - cur\<bar>
                          \<and> \<bar>wt - cur\<bar> \<le> int (length kfs) * (ps div 4)) \<Longrightarrow>
         smooth_run ps wt cur kfs = wt"
proof (induction kfs arbitrary: cur)
  case Nil
  then show ?case by simp
next
  case (Cons kf kfs)
  let ?q = "ps div 4"
  let ?c = "smooth_threshold ps wt cur kf"
  have d: "int (length kfs) * ?q < \<bar>wt - cur\<bar>" "\<bar>wt - cur\<bar> \<le> (int (length kfs) + 1) * ?q"
    using Cons.prems(3) by (simp_all add: algebra_simps)
  have nonneg: "0 \<le> int (length kfs) * ?q" using assms(4) by simp
  then have ne: "cur \<noteq> wt" using d(1) by auto
  have c: "?c = (if cur > wt then max wt (cur - ?q) else min wt (cur + ?q))"
    by (rule smooth_threshold_step [OF Cons.prems(1) assms(1,2,3) ne])
  have r: "\<bar>?c\<bar> \<le> 2 ^ 30" using c Cons.prems(1) assms(1,4) by (auto simp: max_def min_def)
  have dist: "\<bar>wt - ?c\<bar> = max 0 (\<bar>wt - cur\<bar> - ?q)"
    using c ne by (auto simp: max_def min_def)
  show ?case
  proof (cases kfs)
    case Nil
    then have "\<bar>wt - cur\<bar> \<le> ?q" using d(2) by simp
    then have "?c = wt" using dist by (simp add: max_def split: if_splits)
    then show ?thesis using Nil by simp
  next
    case (Cons k ks)
    then have len: "1 \<le> int (length kfs)" by simp
    have "?q \<le> int (length kfs) * ?q" using len assms(4) by (simp add: mult_le_cancel_right1)
    then have big: "?q < \<bar>wt - cur\<bar>" using d(1) by linarith
    then have dd: "\<bar>wt - ?c\<bar> = \<bar>wt - cur\<bar> - ?q" using dist by simp
    have "smooth_run ps wt ?c kfs = wt"
    proof (rule Cons.IH [OF r])
      show "kfs = [] \<longrightarrow> ?c = wt" using Cons by simp
      show "kfs \<noteq> [] \<longrightarrow> (int (length kfs) - 1) * ?q < \<bar>wt - ?c\<bar>
              \<and> \<bar>wt - ?c\<bar> \<le> int (length kfs) * ?q"
        unfolding dd using d by (simp add: algebra_simps)
    qed
    then show ?thesis by simp
  qed
qed

lemma ceiling_div_bracket:
  assumes "0 < q"
  shows "(ceiling_div a q - 1) * q < a \<and> a \<le> ceiling_div a q * q"
proof -
  define m where "m = (- a) div q"
  define r where "r = (- a) mod q"
  have e: "- a = m * q + r" by (simp add: m_def r_def)
  have b: "0 \<le> r" "r < q" using assms by (simp_all add: r_def)
  have "ceiling_div a q = - m" by (simp add: ceiling_div_def m_def)
  moreover have "(- m - 1) * q = - (m * q) - q" by (simp add: algebra_simps)
  moreover have "(- m) * q = - (m * q)" by simp
  ultimately show ?thesis using e b by simp
qed


lemma smooth_threshold_converges:
  assumes "\<bar>T0\<bar> \<le> 2 ^ 30" "\<bar>T1\<bar> \<le> 2 ^ 30" "0 \<le> ps" "ps < 2 ^ 32" "0 < ps div 4"
    and len: "length kfs = nat (ceiling_div \<bar>T1 - T0\<bar> (ps div 4))"
  shows "smooth_run ps T1 T0 kfs = T1"
proof -
  let ?q = "ps div 4"
  let ?n = "ceiling_div \<bar>T1 - T0\<bar> ?q"
  note br = ceiling_div_bracket [OF assms(5), of "\<bar>T1 - T0\<bar>"]
  have pos: "0 \<le> ?n"
  proof (rule ccontr)
    assume "\<not> 0 \<le> ?n"
    then have "?n \<le> - 1" by simp
    then have "?n * ?q \<le> - 1 * ?q" using assms(5) by (intro mult_right_mono) simp_all
    then show False using br assms(5) by linarith
  qed
  then have n: "int (length kfs) = ?n" using len by simp
  show ?thesis
  proof (rule smooth_threshold_run [OF assms(2,3,4,5) assms(1)])
    show "kfs = [] \<longrightarrow> T0 = T1" using n br by auto
    show "kfs \<noteq> [] \<longrightarrow> (int (length kfs) - 1) * ?q < \<bar>T1 - T0\<bar>
            \<and> \<bar>T1 - T0\<bar> \<le> int (length kfs) * ?q"
      unfolding n using br by simp
  qed
qed

lemma smooth_threshold_at_target:
  "smooth_threshold ps wt wt kf
     = (if kf < wt \<and> wt - kf > s32 (u32 (ps * OUT_SHORT_PERIOD_COUNT))
        then s32 (u32 (s32 (u32 ((u32 kf div ps + 1) * ps))) + ps div 4) else wt)"
  by (simp add: smooth_threshold_def)

lemma smooth_threshold_reset_value:
  assumes "0 \<le> kf" "kf < 2 ^ 30" "0 < ps" "ps \<le> 2 ^ 20"
  shows "s32 (u32 (s32 (u32 ((u32 kf div ps + 1) * ps))) + ps div 4)
           = (kf div ps + 1) * ps + ps div 4"
    and "s32 (u32 (ps * OUT_SHORT_PERIOD_COUNT)) = ps * OUT_SHORT_PERIOD_COUNT"
proof -
  have k: "u32 kf = kf" using assms(1,2) by (simp add: u32_def)
  have "kf = ps * (kf div ps) + kf mod ps" by simp
  moreover have "0 \<le> kf mod ps" using assms(3) by simp
  ultimately have le: "ps * (kf div ps) \<le> kf" by linarith
  have ge: "0 \<le> kf div ps" using assms(1,3) by (simp add: pos_imp_zdiv_nonneg_iff)
  have b: "0 \<le> (kf div ps + 1) * ps" "(kf div ps + 1) * ps \<le> kf + ps"
    using le ge assms(3) by (simp_all add: algebra_simps)
  then have c: "(kf div ps + 1) * ps < 2 ^ 31" using assms(2,4) by simp
  have u: "u32 ((kf div ps + 1) * ps) = (kf div ps + 1) * ps"
    using b(1) c by (simp add: u32_def)
  have s: "s32 ((kf div ps + 1) * ps) = (kf div ps + 1) * ps"
    using b(1) c by (intro s32_id) simp_all
  have q: "0 \<le> ps div 4" "ps div 4 \<le> 2 ^ 18" using assms(3,4) by simp_all
  have "s32 ((kf div ps + 1) * ps + ps div 4) = (kf div ps + 1) * ps + ps div 4"
    using b assms(2,4) q by (intro s32_id) simp_all
  then show "s32 (u32 (s32 (u32 ((u32 kf div ps + 1) * ps))) + ps div 4)
           = (kf div ps + 1) * ps + ps div 4"
    by (simp add: k u s s32_u32_add)
  show "s32 (u32 (ps * OUT_SHORT_PERIOD_COUNT)) = ps * OUT_SHORT_PERIOD_COUNT"
    using assms(3,4) by (simp add: OUT_SHORT_PERIOD_COUNT_def s32_def u32_def)
qed

lemma out_write_pace_threshold:
  "cur_write_threshold (outs (out_write_pace env cfg p s) p)
     = smooth_threshold (u32 (period_size cfg)) (write_threshold (outs s p))
         (cur_write_threshold (outs s p))
         (fst (pacing_loop (ow_htimestamp env) cfg (cur_write_threshold (outs s p)) 0
                 (ow_kernel_frames env) 0 []))"
  by (simp add: out_write_pace_def Let_def split_beta upd_out_def)


text \<open>
  Claim C4, as stated, fails: with the current threshold at 2048, the target at 4096, a
  period of 1024 frames and only 1000 frames left in the kernel buffer, the buffer has
  drained more than \<open>period_size * OUT_SHORT_PERIOD_COUNT\<close> frames below the target,
  yet the write does not reset the threshold to 1280; it steps to 2304.
\<close>

theorem threshold_reset_counterexample:
  "(1000::int) < 4096 \<and> (4096::int) - 1000 > OUT_PERIOD_SIZE * OUT_SHORT_PERIOD_COUNT
   \<and> smooth_threshold OUT_PERIOD_SIZE 4096 2048 1000 = 2304
   \<and> (1000 div OUT_PERIOD_SIZE + 1) * OUT_PERIOD_SIZE + OUT_PERIOD_SIZE div 4 = 1280"
  by (simp add: smooth_threshold_def OUT_PERIOD_SIZE_def OUT_SHORT_PERIOD_COUNT_def
      s32_def u32_def)

text \<open>
  Claim C4, amended. For thresholds \<open>T0\<close> (current) and \<open>T1\<close> (target) of magnitude at
  most \<open>2^30\<close> and a period size with a positive quarter: while the current threshold
  differs from the target, each write moves it towards the target by a quarter period,
  stopping at the target (never overshooting), whatever the kernel buffer holds; hence
  after \<open>ceil(|T1 - T0| / (period_size/4))\<close> writes it equals \<open>T1\<close>. Only when the
  current threshold already equals the target and the kernel buffer has drained more
  than \<open>period_size * OUT_SHORT_PERIOD_COUNT\<close> frames below it is the threshold reset,
  to \<open>(kernel_frames / period_size + 1) * period_size + period_size/4\<close>; otherwise it
  stays at the target. This is the value \<open>out_write\<close> stores after pacing.
\<close>

theorem threshold_smoothing:
  assumes "\<bar>T0\<bar> \<le> 2 ^ 30" and "\<bar>T1\<bar> \<le> 2 ^ 30"
    and "0 \<le> ps" and "ps < 2 ^ 32" and "0 < ps div 4"
  shows "(T0 \<noteq> T1 \<longrightarrow>
            smooth_threshold ps T1 T0 kf
              = (if T0 > T1 then max T1 (T0 - ps div 4) else min T1 (T0 + ps div 4)))
         \<and> (length kfs = nat (ceiling_div \<bar>T1 - T0\<bar> (ps div 4)) \<longrightarrow>
              smooth_run ps T1 T0 kfs = T1)
         \<and> (0 \<le> kf \<and> ps \<le> 2 ^ 20 \<and> kf < T1 \<and> T1 - kf > ps * OUT_SHORT_PERIOD_COUNT \<longrightarrow>
              smooth_threshold ps T1 T1 kf = (kf div ps + 1) * ps + ps div 4)
         \<and> (ps \<le> 2 ^ 20 \<and> \<not> (kf < T1 \<and> T1 - kf > ps * OUT_SHORT_PERIOD_COUNT) \<longrightarrow>
              smooth_threshold ps T1 T1 kf = T1)
         \<and> cur_write_threshold (outs (out_write_pace env cfg p s) p)
             = smooth_threshold (u32 (period_size cfg)) (write_threshold (outs s p))
                 (cur_write_threshold (outs s p))
                 (fst (pacing_loop (ow_htimestamp env) cfg (cur_write_threshold (outs s p)) 0
                         (ow_kernel_frames env) 0 []))"
proof -
  have ps: "0 < ps" using assms(5) by (cases "ps = 0") (use assms(3) in simp_all)
  have a: "T0 \<noteq> T1 \<longrightarrow>
            smooth_threshold ps T1 T0 kf
              = (if T0 > T1 then max T1 (T0 - ps div 4) else min T1 (T0 + ps div 4))"
    using smooth_threshold_step [OF assms(1,2,3,4)] by simp
  have b: "length kfs = nat (ceiling_div \<bar>T1 - T0\<bar> (ps div 4)) \<longrightarrow>
              smooth_run ps T1 T0 kfs = T1"
    using smooth_threshold_converges [OF assms] by simp
  have c: "0 \<le> kf \<and> ps \<le> 2 ^ 20 \<and> kf < T1 \<and> T1 - kf > ps * OUT_SHORT_PERIOD_COUNT \<longrightarrow>
              smooth_threshold ps T1 T1 kf = (kf div ps + 1) * ps + ps div 4"
  proof (intro impI, elim conjE)
    assume h: "0 \<le> kf" "ps \<le> 2 ^ 20" "kf < T1" "T1 - kf > ps * OUT_SHORT_PERIOD_COUNT"
    have k: "kf < 2 ^ 30" using h(3) assms(2) by simp
    show "smooth_threshold ps T1 T1 kf = (kf div ps + 1) * ps + ps div 4"
      unfolding smooth_threshold_at_target smooth_threshold_reset_value [OF h(1) k ps h(2)]
      using h by simp
  qed
  have d: "ps \<le> 2 ^ 20 \<and> \<not> (kf < T1 \<and> T1 - kf > ps * OUT_SHORT_PERIOD_COUNT) \<longrightarrow>
              smooth_threshold ps T1 T1 kf = T1"
  proof (intro impI, elim conjE)
    assume h: "ps \<le> 2 ^ 20" "\<not> (kf < T1 \<and> T1 - kf > ps * OUT_SHORT_PERIOD_COUNT)"
    have eq: "s32 (u32 (ps * OUT_SHORT_PERIOD_COUNT)) = ps * OUT_SHORT_PERIOD_COUNT"
      using ps h(1) by (simp add: OUT_SHORT_PERIOD_COUNT_def s32_def u32_def)
    show "smooth_threshold ps T1 T1 kf = T1"
      using h(2) by (auto simp: smooth_threshold_at_target eq)
  qed
  show ?thesis using a b c d out_write_pace_threshold [of env cfg p s] by blast
qed

theorem threshold_smoothing_witness:
  "smooth_threshold 1024 4096 2048 1000 = 2304
   \<and> length (replicate 8 (1000::int)) = nat (ceiling_div \<bar>4096 - 2048\<bar> (1024 div 4))
   \<and> smooth_run 1024 4096 2048 (replicate 8 1000) = 4096
   \<and> smooth_threshold 1024 4096 4096 1000 = 1280
   \<and> smooth_threshold 1024 4096 4096 3000 = 4096"
proof -
  have h: "\<bar>2048::int\<bar> \<le> 2 ^ 30" "\<bar>4096::int\<bar> \<le> 2 ^ 30" "(0::int) \<le> 1024"
    "(1024::int) < 2 ^ 32" "(0::int) < 1024 div 4"
    by simp_all
  have l: "length (replicate 8 (1000::int)) = nat (ceiling_div \<bar>4096 - 2048\<bar> (1024 div 4))"
    by (simp add: ceiling_div_def)
  note a = threshold_smoothing [OF h, where kf = 1000 and kfs = "replicate 8 1000"
      and env = undefined and cfg = pcm_config_out and p = 0 and s = adev_open]
  note b = threshold_smoothing [OF h, where kf = 3000 and kfs = "replicate 8 1000"
      and env = undefined and cfg = pcm_config_out and p = 0 and s = adev_open]
  have "smooth_threshold 1024 4096 2048 1000 = 2304"
    using a [THEN conjunct1] by simp
  moreover have "smooth_run 1024 4096 2048 (replicate 8 1000) = 4096"
    using a [THEN conjunct2, THEN conjunct1] l by blast
  moreover have "smooth_threshold 1024 4096 4096 1000 = 1280"
    using a [THEN conjunct2, THEN conjunct2, THEN conjunct1]
    by (simp add: OUT_SHORT_PERIOD_COUNT_def)
  moreover have "smooth_threshold 1024 4096 4096 3000 = 4096"
    using b [THEN conjunct2, THEN conjunct2, THEN conjunct2, THEN conjunct1]
    by (simp add: OUT_SHORT_PERIOD_COUNT_def)
  ultimately show ?thesis using l by blast
qed

subsection \<open>The negotiation loops\<close>


lemma out_wait_input_active:
  assumes "active_in (dev s) = Some i" and "\<not> standby_i (ins s i)"
  shows "out_wait_input s (Some i)
           = (do_in_standby i (adev_lock (in_lock i
                (upd_in i (\<lambda>x. x\<lparr>sleep_req_i := True\<rparr>) (adev_unlock s)))),
              Some i, True, True)"
proof -
  let ?s4 = "adev_lock (in_lock i (upd_in i (\<lambda>x. x\<lparr>sleep_req_i := True\<rparr>) (adev_unlock s)))"
  have a: "active_in (dev ?s4) = Some i" "\<not> standby_i (ins ?s4 i)"
    using assms
    by (simp_all add: adev_lock_def adev_unlock_def in_lock_def upd_in_def upd_dev_def halt_def)
  show ?thesis
    using assms(2) a by (subst out_wait_input.simps) (simp add: Let_def)
qed

lemma do_in_standby_effect:
  assumes "\<not> standby_i (ins s i)"
  shows "standby_i (ins (do_in_standby i s) i)
         \<and> outs (do_in_standby i s) = outs s
         \<and> halted (do_in_standby i s) = halted s
         \<and> active_out (dev (do_in_standby i s)) = active_out (dev s)
         \<and> active_in (dev (do_in_standby i s)) = None
         \<and> lock_d (dev (do_in_standby i s)) = lock_d (dev s)
         \<and> (\<forall>j. lock_i (ins (do_in_standby i s) j) = lock_i (ins s j))
         \<and> (\<exists>post. events (do_in_standby i s) = events s @ [PcmClose (pcm_i (ins s i))] @ post)"
  using assms
  by (auto simp: do_in_standby_def Let_def upd_in_def upd_dev_def emit_def
      split: option.splits)

lemma do_out_standby_effect:
  assumes "\<not> standby_o (outs s q)"
  shows "standby_o (outs (do_out_standby q s) q)
         \<and> ins (do_out_standby q s) = ins s
         \<and> halted (do_out_standby q s) = halted s
         \<and> active_in (dev (do_out_standby q s)) = active_in (dev s)
         \<and> active_out (dev (do_out_standby q s)) = None
         \<and> lock_d (dev (do_out_standby q s)) = lock_d (dev s)
         \<and> (\<forall>j. lock_o (outs (do_out_standby q s) j) = lock_o (outs s j))
         \<and> (\<exists>post. events (do_out_standby q s) = events s @ [PcmClose (pcm_o (outs s q))] @ post)"
  using assms
  by (auto simp: do_out_standby_def Let_def upd_out_def upd_dev_def emit_def
      split: option.splits)


subsection \<open>The outcome of a write\<close>

lemma out_write_active:
  assumes "\<not> standby_o (outs s p)" and "pcm_config_o (outs s p) = Some pcm_config_out"
    and "\<not> lock_o (outs s p)"
  shows "out_write env p bytes s
           = returned (out_write_transfer env p bytes (bytes div 4) 4
                    (out_write_pace env pcm_config_out p
                       (select_buffer_type pcm_config_out p
                          (out_lock p (if sleep_req_o (outs s p) then emit (Usleep 10000) s
                                       else s)))))"
  using assms
  by (simp add: out_write_def Let_def out_lock_def upd_out_def emit_def
      audio_stream_out_frame_size_def out_get_sample_rate_def select_buffer_type_def
      pcm_config_out_def s32_def)

lemma out_write_transfer_underrun:
  assumes "ow_pcm_write env = - EPIPE"
  shows "out_write_transfer env p bytes n fs s
           = (out_unlock p (emit (PcmWrite (pcm_o (outs s p)) (u32 (n * fs))) s), - EPIPE)"
  using assms by (simp add: out_write_transfer_def Let_def)

lemma out_write_transfer_success:
  assumes "ow_pcm_write env = 0"
  shows "out_write_transfer env p bytes n fs s
           = (out_unlock p (upd_out p (\<lambda>out. out\<lparr>written := u64 (written out + n)\<rparr>)
                (emit (PcmWrite (pcm_o (outs s p)) (u32 (n * fs))) s)), s32 bytes)"
  using assms by (simp add: out_write_transfer_def out_write_exit_def Let_def EPIPE_def)

lemma out_write_transfer_error:
  assumes "ow_pcm_write env \<noteq> 0" and "ow_pcm_write env \<noteq> - EPIPE"
  shows "out_write_transfer env p bytes n fs s
           = (emit (Usleep (u32 (bytes * 1000000) div 4 div 44100))
                (out_unlock p (emit (PcmWrite (pcm_o (outs s p)) (u32 (n * fs))) s)),
              s32 bytes)"
  using assms
  by (simp add: out_write_transfer_def out_write_exit_def Let_def
      audio_stream_out_frame_size_def out_get_sample_rate_def pcm_config_out_def
      OUT_SAMPLING_RATE_def)


text \<open>
  Claim C2 at a write of 8192 bytes whose hardware write fails with \<open>-EIO\<close>, on the
  playing stream: the call reports all 8192 bytes, but the compensating sleep is
  22092 us, where transferring 8192 bytes (2048 frames at 44100 Hz) takes 46439 us. The
  product \<open>bytes * 1000000\<close> wraps around in the 32-bit \<open>size_t\<close>.
\<close>

theorem out_write_error_sleep_wraps:
  "(case out_write eio_env 1 8192 started of
      Inr (s', r) \<Rightarrow>
        r = 8192 \<and> events s' = events started @ [PcmWrite (Some 7) 8192, Usleep 22092]
    | Inl f \<Rightarrow> False)
   \<and> (8192 * 1000000) div (4 * 44100) = (46439::int)
   \<and> \<not> standby_o (outs started 1)"
  by code_simp

subsection \<open>A start that fails\<close>






lemma in_wait_output_idle:
  "outp = None \<or> (\<exists>q. outp = Some q \<and> standby_o (outs s q)) \<Longrightarrow>
     in_wait_output p s outp = (s, outp, False)"
  by (subst in_wait_output.simps) auto

lemma in_wait_output_active:
  assumes "active_out (dev s) = Some q" and "\<not> standby_o (outs s q)"
  shows "in_wait_output p s (Some q)
           = (adev_lock (in_lock p (out_lock q
                (upd_out q (\<lambda>out. out\<lparr>sleep_req_o := True\<rparr>) (in_unlock p (adev_unlock s))))),
              Some q, True)"
proof -
  let ?s6 = "adev_lock (in_lock p (out_lock q
                (upd_out q (\<lambda>out. out\<lparr>sleep_req_o := True\<rparr>) (in_unlock p (adev_unlock s)))))"
  have a: "active_out (dev ?s6) = Some q"
    using assms
    by (simp add: adev_lock_def adev_unlock_def in_lock_def in_unlock_def out_lock_def
        upd_in_def upd_out_def upd_dev_def halt_def)
  show ?thesis
    using assms(2) a by (subst in_wait_output.simps) (simp add: Let_def)
qed

lemma start_output_stream_frame:
  "ins (fst (start_output_stream env q s)) = ins s
   \<and> halted (fst (start_output_stream env q s)) = halted s
   \<and> active_in (dev (fst (start_output_stream env q s))) = active_in (dev s)
   \<and> out_device (dev (fst (start_output_stream env q s))) = out_device (dev s)
   \<and> in_device (dev (fst (start_output_stream env q s))) = in_device (dev s)
   \<and> in_source (dev (fst (start_output_stream env q s))) = in_source (dev s)
   \<and> lock_d (dev (fst (start_output_stream env q s))) = lock_d (dev s)
   \<and> (\<forall>j. lock_o (outs (fst (start_output_stream env q s)) j) = lock_o (outs s j))
   \<and> (\<exists>post. events (fst (start_output_stream env q s)) = events s @ post)"
  by (cases "pcm_open env")
     (simp_all add: start_output_stream_def out_get_sample_rate_def
        Let_def upd_out_def upd_dev_def emit_def)

lemma start_output_stream_ready:
  assumes "pcm_open env = PcmReady h"
  shows "start_output_stream env p s
           = (upd_dev (\<lambda>d. d\<lparr>active_out := Some p\<rparr>)
                (upd_out p (\<lambda>out. out\<lparr>pcm_o := Some h\<rparr>)
                   (emit (PcmOpenOut h True)
                      (upd_out p (\<lambda>out. out\<lparr>pcm_config_o := Some pcm_config_out,
                                    buffer_type := OUT_BUFFER_TYPE_UNKNOWN\<rparr>) s))),
              0)"
  using assms by (simp add: start_output_stream_def out_get_sample_rate_def Let_def)

lemma start_input_stream_ready:
  assumes "pcm_open env = PcmReady h"
  shows "snd (start_input_stream env i s) = 0
         \<and> outs (fst (start_input_stream env i s)) = outs s
         \<and> halted (fst (start_input_stream env i s)) = halted s
         \<and> lock_d (dev (fst (start_input_stream env i s))) = lock_d (dev s)
         \<and> active_in (dev (fst (start_input_stream env i s))) = Some i
         \<and> active_out (dev (fst (start_input_stream env i s))) = active_out (dev s)
         \<and> pcm_i (ins (fst (start_input_stream env i s)) i) = Some h
         \<and> buffer_i (ins (fst (start_input_stream env i s)) i) = malloc env
         \<and> standby_i (ins (fst (start_input_stream env i s)) i) = standby_i (ins s i)
         \<and> lock_i (ins (fst (start_input_stream env i s)) i) = lock_i (ins s i)
         \<and> (\<exists>post. events (fst (start_input_stream env i s))
                     = events s @ [PcmOpenIn h True] @ post)"
  using assms
  by (auto simp: start_input_stream_def Let_def upd_in_def upd_dev_def emit_def
      split: option.splits)

text \<open>
  The first half of \<open>in_read\<close>'s exit from standby, up to the start of the input: the
  registered output, if it is not in standby, is closed and started again.
\<close>

lemma in_read_exit_standby_shape:
  assumes "halted s = None" and "\<not> lock_d (dev s)"
    and "\<forall>q. active_out (dev s) = Some q \<longrightarrow> \<not> lock_o (outs s q)"
  shows "\<exists>s3 pre. in_read_exit_standby env p s
            = (let (s4, ret) = start_input_stream (ir_start_in env) p s3;
                   s5 = (if ret = 0 then upd_in p (\<lambda>i. i\<lparr>standby_i := False\<rparr>) s4 else s4);
                   s6 = emit (SelectDevices (out_device (dev s5)) (in_device (dev s5))) s5;
                   s7 = emit (SelectInputSource (in_source (dev s6))) s6
               in (adev_unlock s7, ret))
          \<and> halted s3 = None
          \<and> standby_i (ins s3 p) = standby_i (ins s p)
          \<and> resampler_i (ins s3 p) = resampler_i (ins s p)
          \<and> buffer_i (ins s3 p) = buffer_i (ins s p)
          \<and> requested_rate (ins s3 p) = requested_rate (ins s p)
          \<and> pcm_config_i (ins s3 p) = pcm_config_i (ins s p)
          \<and> active_in (dev s3) = active_in (dev s)
          \<and> out_device (dev s3) = out_device (dev s)
          \<and> in_device (dev s3) = in_device (dev s)
          \<and> in_source (dev s3) = in_source (dev s)
          \<and> events s3 = events s @ pre
          \<and> (\<forall>q h. active_out (dev s) = Some q \<and> \<not> standby_o (outs s q)
                \<and> pcm_open (ir_start_out env) = PcmReady h \<longrightarrow>
                \<not> standby_o (outs s3 q) \<and> pcm_o (outs s3 q) = Some h
                \<and> active_out (dev s3) = Some q
                \<and> (\<exists>mid. pre = [PcmClose (pcm_o (outs s q))] @ mid @ [PcmOpenOut h True]))"
proof -
  let ?s1 = "adev_lock s"
  have s1: "halted ?s1 = None" "outs ?s1 = outs s" "outs ?s1 = outs s"
    "ins ?s1 = ins s" "events ?s1 = events s" "active_out (dev ?s1) = active_out (dev s)"
    "active_in (dev ?s1) = active_in (dev s)" "out_device (dev ?s1) = out_device (dev s)"
    "in_device (dev ?s1) = in_device (dev s)" "in_source (dev ?s1) = in_source (dev s)"
    using assms by (simp_all add: adev_lock_def upd_dev_def)
  show ?thesis
  proof (cases "\<exists>q. active_out (dev s) = Some q \<and> \<not> standby_o (outs s q)")
    case False
    have idle: "active_out (dev ?s1) = None
                  \<or> (\<exists>q. active_out (dev ?s1) = Some q \<and> standby_o (outs ?s1 q))"
      using False s1(3,6) by (cases "active_out (dev s)") auto
    have w: "in_wait_output p ?s1 (active_out (dev ?s1)) = (?s1, active_out (dev ?s1), False)"
      by (rule in_wait_output_idle [OF idle])
    have c: "(case active_out (dev ?s1) of None \<Rightarrow> ?s1
              | Some q \<Rightarrow> if \<not> standby_o (outs ?s1 q) then X q else ?s1) = ?s1" for X
      using idle by (auto split: option.splits)
    have eq: "in_read_exit_standby env p s
            = (let (s4, ret) = start_input_stream (ir_start_in env) p ?s1;
                   s5 = (if ret = 0 then upd_in p (\<lambda>i. i\<lparr>standby_i := False\<rparr>) s4 else s4);
                   s6 = emit (SelectDevices (out_device (dev s5)) (in_device (dev s5))) s5;
                   s7 = emit (SelectInputSource (in_source (dev s6))) s6
               in (adev_unlock s7, ret))"
      unfolding in_read_exit_standby_def Let_def w prod.case c ..
    show ?thesis
      apply (rule exI [where x = ?s1])
      apply (rule exI [where x = "[]"])
      using eq s1 False apply simp
      done
  next
    case True
    then obtain q where q: "active_out (dev s) = Some q" "\<not> standby_o (outs s q)" by blast
    have a: "active_out (dev ?s1) = Some q" "\<not> standby_o (outs ?s1 q)"
      using q s1(3,6) by simp_all
    define s6 where "s6 = adev_lock (in_lock p (out_lock q
                (upd_out q (\<lambda>out. out\<lparr>sleep_req_o := True\<rparr>) (in_unlock p (adev_unlock ?s1)))))"
    have w: "in_wait_output p ?s1 (active_out (dev ?s1)) = (s6, Some q, True)"
      unfolding a(1) s6_def by (rule in_wait_output_active [OF a])
    have s6: "\<not> standby_o (outs s6 q)" "halted s6 = None" "events s6 = events s"
      "pcm_o (outs s6 q) = pcm_o (outs s q)"
      "standby_i (ins s6 p) = standby_i (ins s p)" "resampler_i (ins s6 p) = resampler_i (ins s p)"
      "buffer_i (ins s6 p) = buffer_i (ins s p)" "requested_rate (ins s6 p) = requested_rate (ins s p)"
      "pcm_config_i (ins s6 p) = pcm_config_i (ins s p)"
      "active_in (dev s6) = active_in (dev s)" "out_device (dev s6) = out_device (dev s)"
      "in_device (dev s6) = in_device (dev s)" "in_source (dev s6) = in_source (dev s)"
      using q assms
      by (simp_all add: s6_def adev_lock_def adev_unlock_def in_lock_def in_unlock_def
          out_lock_def upd_in_def upd_out_def upd_dev_def)
    define t1 where "t1 = do_out_standby q s6"
    from do_out_standby_effect [OF s6(1)] obtain post1 where
      t1: "ins t1 = ins s6" "halted t1 = None" "active_in (dev t1) = active_in (dev s)"
      "events t1 = events s @ [PcmClose (pcm_o (outs s q))] @ post1"
      unfolding t1_def s6(3,4) using s6(2,10) by auto
    have t1d: "out_device (dev t1) = out_device (dev s)" "in_device (dev t1) = in_device (dev s)"
      "in_source (dev t1) = in_source (dev s)"
      using s6(11,12,13)
      by (simp_all add: t1_def do_out_standby_def Let_def upd_out_def upd_dev_def emit_def
          split: option.splits)
    define t2 where "t2 = fst (start_output_stream (ir_start_out env) q t1)"
    from start_output_stream_frame [of "ir_start_out env" q t1] obtain post2 where
      t2: "ins t2 = ins s6" "halted t2 = None" "active_in (dev t2) = active_in (dev s)"
      "out_device (dev t2) = out_device (dev s)" "in_device (dev t2) = in_device (dev s)"
      "in_source (dev t2) = in_source (dev s)"
      "events t2 = events s @ [PcmClose (pcm_o (outs s q))] @ post1 @ post2"
      using t1 t1d by (auto simp: t2_def)
    define s3 where "s3 = upd_out q (\<lambda>out. out\<lparr>sleep_req_o := False\<rparr>)
                            (out_unlock q (upd_out q (\<lambda>out. out\<lparr>standby_o := False\<rparr>) t2))"
    have s3: "\<not> standby_o (outs s3 q)" "halted s3 = None" "ins s3 = ins s6"
      "active_in (dev s3) = active_in (dev s)"
      "out_device (dev s3) = out_device (dev s)" "in_device (dev s3) = in_device (dev s)"
      "in_source (dev s3) = in_source (dev s)"
      "events s3 = events s @ [PcmClose (pcm_o (outs s q))] @ post1 @ post2"
      "pcm_o (outs s3 q) = pcm_o (outs t2 q)" "active_out (dev s3) = active_out (dev t2)"
      using t2 by (simp_all add: s3_def out_unlock_def upd_out_def)
    have eq: "in_read_exit_standby env p s
            = (let (s4, ret) = start_input_stream (ir_start_in env) p s3;
                   s5 = (if ret = 0 then upd_in p (\<lambda>i. i\<lparr>standby_i := False\<rparr>) s4 else s4);
                   s6 = emit (SelectDevices (out_device (dev s5)) (in_device (dev s5))) s5;
                   s7 = emit (SelectInputSource (in_source (dev s6))) s6
               in (adev_unlock s7, ret))"
      unfolding in_read_exit_standby_def Let_def w prod.case option.case
      using s6(1)
      by (simp add: split_beta t1_def [symmetric] t2_def [symmetric] s3_def [symmetric])
    have rdy: "\<forall>q' h. active_out (dev s) = Some q' \<and> \<not> standby_o (outs s q')
                \<and> pcm_open (ir_start_out env) = PcmReady h \<longrightarrow>
                \<not> standby_o (outs s3 q') \<and> pcm_o (outs s3 q') = Some h
                \<and> active_out (dev s3) = Some q'
                \<and> (\<exists>mid. [PcmClose (pcm_o (outs s q))] @ post1 @ post2
                       = [PcmClose (pcm_o (outs s q'))] @ mid @ [PcmOpenOut h True])"
    proof (intro allI impI, elim conjE)
      fix q' h
      assume h: "active_out (dev s) = Some q'" "pcm_open (ir_start_out env) = PcmReady h"
      have qq: "q' = q" using h(1) q(1) by simp
      have r: "pcm_o (outs t2 q) = Some h" "active_out (dev t2) = Some q"
        "events t2 = events t1 @ [PcmOpenOut h True]"
        by (simp_all add: t2_def start_output_stream_ready [OF h(2)] upd_out_def upd_dev_def
            emit_def)
      have "post2 = [PcmOpenOut h True]" using r(3) t2(7) t1(4) by simp
      then show "\<not> standby_o (outs s3 q') \<and> pcm_o (outs s3 q') = Some h
                \<and> active_out (dev s3) = Some q'
                \<and> (\<exists>mid. [PcmClose (pcm_o (outs s q))] @ post1 @ post2
                       = [PcmClose (pcm_o (outs s q'))] @ mid @ [PcmOpenOut h True])"
        unfolding qq using s3(1,9,10) r(1,2) by simp
    qed
    show ?thesis
      apply (rule exI [where x = s3])
      apply (rule exI [where x = "[PcmClose (pcm_o (outs s q))] @ post1 @ post2"])
      using eq s3(2-8) s6(5-9) rdy apply simp
      apply blast
      done
  qed
qed




subsection \<open>Both directions after a negotiation\<close>

lemma out_write_exit_standby_restarts_input:
  assumes "active_in (dev s) = Some i" and "\<not> standby_i (ins s i)"
    and "pcm_open (ow_start_out env) = PcmReady h"
    and "pcm_open (ow_start_in env) = PcmReady h'"
    and "halted s = None" and "\<not> lock_d (dev s)" and "\<not> lock_i (ins s i)"
  shows "snd (out_write_exit_standby env p s) = 0
         \<and> halted (fst (out_write_exit_standby env p s)) = None
         \<and> \<not> standby_o (outs (fst (out_write_exit_standby env p s)) p)
         \<and> \<not> standby_i (ins (fst (out_write_exit_standby env p s)) i)
         \<and> active_out (dev (fst (out_write_exit_standby env p s))) = Some p
         \<and> active_in (dev (fst (out_write_exit_standby env p s))) = Some i
         \<and> pcm_o (outs (fst (out_write_exit_standby env p s)) p) = Some h
         \<and> pcm_i (ins (fst (out_write_exit_standby env p s)) i) = Some h'
         \<and> pcm_config_o (outs (fst (out_write_exit_standby env p s)) p) = Some pcm_config_out
         \<and> lock_o (outs (fst (out_write_exit_standby env p s)) p) = lock_o (outs s p)
         \<and> (\<exists>mid post. events (fst (out_write_exit_standby env p s))
                = events s @ [PcmClose (pcm_i (ins s i))] @ mid
                    @ [PcmOpenOut h True, PcmOpenIn h' True] @ post)"
proof -
  have a: "active_in (dev (adev_lock s)) = Some i" "\<not> standby_i (ins (adev_lock s) i)"
    using assms(1,2,6) by (simp_all add: adev_lock_def upd_dev_def)
  note w = out_wait_input_active [OF a]
  define s4 where "s4 = adev_lock (in_lock i (upd_in i (\<lambda>x. x\<lparr>sleep_req_i := True\<rparr>)
                          (adev_unlock (adev_lock s))))"
  have s4: "\<not> standby_i (ins s4 i)" "events s4 = events s" "pcm_i (ins s4 i) = pcm_i (ins s i)"
    "halted s4 = None" "outs s4 = outs s"
    using assms(2,5,6,7)
    by (simp_all add: s4_def adev_lock_def adev_unlock_def in_lock_def upd_in_def upd_dev_def)
  define t1 where "t1 = do_in_standby i s4"
  from do_in_standby_effect [OF s4(1)] obtain post1 where
    t1: "standby_i (ins t1 i)" "events t1 = events s @ [PcmClose (pcm_i (ins s i))] @ post1"
      "halted t1 = None" "outs t1 = outs s"
    unfolding t1_def s4(2,3) using s4(4,5) by auto
  define s3 where "s3 = upd_dev (\<lambda>d. d\<lparr>active_out := Some p\<rparr>)
                (upd_out p (\<lambda>out. out\<lparr>pcm_o := Some h\<rparr>)
                   (emit (PcmOpenOut h True)
                      (upd_out p (\<lambda>out. out\<lparr>pcm_config_o := Some pcm_config_out,
                                    buffer_type := OUT_BUFFER_TYPE_UNKNOWN\<rparr>) t1)))"
  have so: "start_output_stream (ow_start_out env) p t1 = (s3, 0)"
    unfolding s3_def by (rule start_output_stream_ready [OF assms(3)])
  have s3: "standby_i (ins s3 i)" "active_out (dev s3) = Some p"
    "events s3 = events s @ [PcmClose (pcm_i (ins s i))] @ post1 @ [PcmOpenOut h True]"
    "pcm_config_o (outs s3 p) = Some pcm_config_out" "pcm_o (outs s3 p) = Some h"
    "halted s3 = None" "lock_o (outs s3 p) = lock_o (outs s p)"
    "standby_o (outs s3 p) = standby_o (outs s p)"
    using t1 by (simp_all add: s3_def upd_dev_def upd_out_def emit_def)
  define u where "u = fst (start_input_stream (ow_start_in env) i s3)"
  have si: "start_input_stream (ow_start_in env) i s3 = (u, 0)"
    using start_input_stream_ready [OF assms(4), of i s3] by (simp add: u_def prod_eq_iff)
  from start_input_stream_ready [OF assms(4), of i s3] obtain post2 where
    u: "active_in (dev u) = Some i" "active_out (dev u) = Some p" "pcm_i (ins u i) = Some h'"
    "events u = events s @ [PcmClose (pcm_i (ins s i))] @ post1
                  @ [PcmOpenOut h True, PcmOpenIn h' True] @ post2"
    "pcm_config_o (outs u p) = Some pcm_config_out" "pcm_o (outs u p) = Some h"
    "halted u = None" "lock_o (outs u p) = lock_o (outs s p)"
    using s3 by (auto simp: u_def)
  have eq: "out_write_exit_standby env p s
              = (adev_unlock (upd_out p (\<lambda>out. out\<lparr>standby_o := False\<rparr>)
                   (emit (SelectDevices (out_device (dev u)) (in_device (dev u)))
                      (upd_in i (\<lambda>x. x\<lparr>sleep_req_i := False\<rparr>)
                         (in_unlock i (upd_in i (\<lambda>x. x\<lparr>standby_i := False\<rparr>) u))))), 0)"
    unfolding out_write_exit_standby_def Let_def a(1) w
    unfolding s4_def [symmetric] t1_def [symmetric]
    by (simp add: so si s3(1) in_unlock_def upd_in_def)
  show ?thesis
    unfolding eq using u
    apply (simp add: adev_unlock_def in_unlock_def upd_in_def upd_out_def upd_dev_def emit_def)
    apply (rule exI [where x = post1])
    apply simp
    done
qed

lemma in_read_exit_standby_restarts_output:
  assumes "active_out (dev s) = Some q" and "\<not> standby_o (outs s q)"
    and "pcm_open (ir_start_out env) = PcmReady h"
    and "pcm_open (ir_start_in env) = PcmReady k"
    and "halted s = None" and "\<not> lock_d (dev s)" and "\<not> lock_o (outs s q)"
  shows "snd (in_read_exit_standby env p s) = 0
         \<and> halted (fst (in_read_exit_standby env p s)) = None
         \<and> \<not> standby_o (outs (fst (in_read_exit_standby env p s)) q)
         \<and> \<not> standby_i (ins (fst (in_read_exit_standby env p s)) p)
         \<and> active_out (dev (fst (in_read_exit_standby env p s))) = Some q
         \<and> active_in (dev (fst (in_read_exit_standby env p s))) = Some p
         \<and> pcm_o (outs (fst (in_read_exit_standby env p s)) q) = Some h
         \<and> pcm_i (ins (fst (in_read_exit_standby env p s)) p) = Some k
         \<and> (\<exists>mid post. events (fst (in_read_exit_standby env p s))
                = events s @ [PcmClose (pcm_o (outs s q))] @ mid
                    @ [PcmOpenOut h True, PcmOpenIn k True] @ post)"
proof -
  have fr: "\<forall>q. active_out (dev s) = Some q \<longrightarrow> \<not> lock_o (outs s q)"
    using assms(1,7) by simp
  from in_read_exit_standby_shape [OF assms(5,6) fr, of env p]
  obtain s3 pre where
    eq: "in_read_exit_standby env p s
            = (let (s4, ret) = start_input_stream (ir_start_in env) p s3;
                   s5 = (if ret = 0 then upd_in p (\<lambda>i. i\<lparr>standby_i := False\<rparr>) s4 else s4);
                   s6 = emit (SelectDevices (out_device (dev s5)) (in_device (dev s5))) s5;
                   s7 = emit (SelectInputSource (in_source (dev s6))) s6
               in (adev_unlock s7, ret))"
    and s3: "halted s3 = None" "events s3 = events s @ pre"
    and rdy: "\<forall>q h. active_out (dev s) = Some q \<and> \<not> standby_o (outs s q)
                \<and> pcm_open (ir_start_out env) = PcmReady h \<longrightarrow>
                \<not> standby_o (outs s3 q) \<and> pcm_o (outs s3 q) = Some h
                \<and> active_out (dev s3) = Some q
                \<and> (\<exists>mid. pre = [PcmClose (pcm_o (outs s q))] @ mid @ [PcmOpenOut h True])"
    by blast
  from rdy assms(1,2,3) obtain mid where
    r: "\<not> standby_o (outs s3 q)" "pcm_o (outs s3 q) = Some h" "active_out (dev s3) = Some q"
      "pre = [PcmClose (pcm_o (outs s q))] @ mid @ [PcmOpenOut h True]"
    by blast
  define u where "u = fst (start_input_stream (ir_start_in env) p s3)"
  have si: "start_input_stream (ir_start_in env) p s3 = (u, 0)"
    using start_input_stream_ready [OF assms(4), of p s3] by (simp add: u_def prod_eq_iff)
  from start_input_stream_ready [OF assms(4), of p s3] obtain post where
    u: "active_in (dev u) = Some p" "pcm_i (ins u p) = Some k" "outs u = outs s3"
    "active_out (dev u) = Some q" "halted u = None"
    "events u = events s @ [PcmClose (pcm_o (outs s q))] @ mid
                  @ [PcmOpenOut h True, PcmOpenIn k True] @ post"
    using s3 r by (auto simp: u_def)
  define v where "v = upd_in p (\<lambda>i. i\<lparr>standby_i := False\<rparr>) u"
  have eq2: "in_read_exit_standby env p s
              = (adev_unlock (emit (SelectInputSource (in_source (dev v)))
                   (emit (SelectDevices (out_device (dev v)) (in_device (dev v))) v)), 0)"
    unfolding eq si by (simp add: Let_def v_def emit_def)
  show ?thesis
    unfolding eq2 using u r(1,2)
    apply (simp add: v_def adev_unlock_def upd_in_def upd_dev_def emit_def)
    apply (rule exI [where x = mid])
    apply simp
    done
qed

lemma out_write_tail_frame:
  "standby_o (outs (fst (out_write_transfer env p bytes n fs
                      (out_write_pace env cfg p (select_buffer_type cfg p s)))) q)
     = standby_o (outs s q)
   \<and> ins (fst (out_write_transfer env p bytes n fs
                 (out_write_pace env cfg p (select_buffer_type cfg p s)))) = ins s
   \<and> halted (fst (out_write_transfer env p bytes n fs
                 (out_write_pace env cfg p (select_buffer_type cfg p s)))) = halted s
   \<and> active_out (dev (fst (out_write_transfer env p bytes n fs
                 (out_write_pace env cfg p (select_buffer_type cfg p s))))) = active_out (dev s)
   \<and> active_in (dev (fst (out_write_transfer env p bytes n fs
                 (out_write_pace env cfg p (select_buffer_type cfg p s))))) = active_in (dev s)"
  by (simp add: out_write_transfer_def out_write_exit_def out_write_pace_def
      select_buffer_type_def Let_def split_beta out_unlock_def upd_out_def emit_def)

lemma out_write_restarts_input:
  assumes "standby_o (outs s p)" and "active_in (dev s) = Some i" and "\<not> standby_i (ins s i)"
    and "pcm_open (ow_start_out env) = PcmReady h"
    and "pcm_open (ow_start_in env) = PcmReady h'"
    and "halted s = None" and "\<not> lock_o (outs s p)" and "\<not> lock_d (dev s)"
    and "\<not> lock_i (ins s i)"
  shows "\<exists>s' r. out_write env p bytes s = Inr (s', r)
           \<and> \<not> standby_o (outs s' p) \<and> \<not> standby_i (ins s' i)
           \<and> active_out (dev s') = Some p \<and> active_in (dev s') = Some i"
proof -
  define s1 where "s1 = out_lock p (if sleep_req_o (outs s p) then emit (Usleep 10000) s else s)"
  have s1: "standby_o (outs s1 p)" "active_in (dev s1) = Some i" "\<not> standby_i (ins s1 i)"
    "halted s1 = None" "\<not> lock_d (dev s1)" "\<not> lock_i (ins s1 i)"
    using assms(1,2,3,6,7,8,9) by (simp_all add: s1_def out_lock_def upd_out_def emit_def)
  note e = out_write_exit_standby_restarts_input [OF s1(2,3) assms(4,5) s1(4,5,6), of p]
  define s2 where "s2 = fst (out_write_exit_standby env p s1)"
  have x: "out_write_exit_standby env p s1 = (s2, 0)"
    using e by (simp add: s2_def prod_eq_iff)
  define s' where "s' = fst (out_write_transfer env p bytes (bytes div 4) 4
                      (out_write_pace env pcm_config_out p
                         (select_buffer_type pcm_config_out p s2)))"
  note f = out_write_tail_frame [of env p bytes "bytes div 4" 4 pcm_config_out s2]
  have h: "halted s' = None" using f e by (simp add: s'_def s2_def)
  have w: "out_write env p bytes s
             = returned (out_write_transfer env p bytes (bytes div 4) 4
                      (out_write_pace env pcm_config_out p
                         (select_buffer_type pcm_config_out p s2)))"
    using s1(1) e
    unfolding out_write_def Let_def s1_def [symmetric]
    by (simp add: x s2_def [symmetric] audio_stream_out_frame_size_def out_get_sample_rate_def
        pcm_config_out_def s32_def)
  have w2: "out_write env p bytes s
             = Inr (out_write_transfer env p bytes (bytes div 4) 4
                      (out_write_pace env pcm_config_out p
                         (select_buffer_type pcm_config_out p s2)))"
    unfolding w using h by (simp add: returned_def s'_def)
  show ?thesis
    unfolding w2 using e f
    by (auto simp: s2_def [symmetric] prod_eq_iff)
qed

lemma opened_after_read:
  "(case in_read read_env 2 2048 opened of
      Inr (sb, r) \<Rightarrow>
        standby_o (outs sb 1) \<and> active_in (dev sb) = Some 2 \<and> \<not> standby_i (ins sb 2)
        \<and> halted sb = None \<and> \<not> lock_o (outs sb 1) \<and> \<not> lock_d (dev sb)
        \<and> \<not> lock_i (ins sb 2)
    | Inl f \<Rightarrow> False)"
  by (simp add: in_read_def in_read_exit_standby_def in_read_exit_def Let_def returned_def
      in_wait_output_idle start_input_stream_def read_env_def opened_fields
      in_lock_def in_unlock_def adev_lock_def adev_unlock_def upd_in_def upd_dev_def emit_def
      zero_in_def zero_out_def in_get_sample_rate_def pcm_config_in_def IN_SAMPLING_RATE_def
      audio_stream_in_frame_size_def)

text \<open>
  Claim C1, as stated, fails: open an output and an input stream, read once, then write
  once, every hardware call succeeding. The write forces the capturing input to standby
  and starts it again, so when it returns both registered streams are out of standby.
\<close>

theorem both_directions_active_counterexample:
  "(case api_run [OpenOutput (Some 1) cd_config, OpenInput (Some 2) False mono_config,
                  InRead read_env 2 2048, OutWrite ready_env 1 4096] adev_open of
      Some s \<Rightarrow>
        active_out (dev s) = Some 1 \<and> active_in (dev s) = Some 2
        \<and> \<not> standby_o (outs s 1) \<and> \<not> standby_i (ins s 2)
    | None \<Rightarrow> False)"
proof -
  obtain sb r where rd: "in_read read_env 2 2048 opened = Inr (sb, r)"
    and sb: "standby_o (outs sb 1)" "active_in (dev sb) = Some 2" "\<not> standby_i (ins sb 2)"
    and fr: "halted sb = None" "\<not> lock_o (outs sb 1)" "\<not> lock_d (dev sb)"
      "\<not> lock_i (ins sb 2)"
    using opened_after_read by (auto split: sum.splits)
  have env: "pcm_open (ow_start_out ready_env) = PcmReady 7"
    "pcm_open (ow_start_in ready_env) = PcmReady 8"
    by (simp_all add: ready_env_def)
  from out_write_restarts_input [OF sb env fr, of 4096] obtain s' r' where
    wr: "out_write ready_env 1 4096 sb = Inr (s', r')"
    and s': "\<not> standby_o (outs s' 1)" "\<not> standby_i (ins s' 2)"
    "active_out (dev s') = Some 1" "active_in (dev s') = Some 2"
    by blast
  have "api_run [OpenOutput (Some 1) cd_config, OpenInput (Some 2) False mono_config,
                 InRead read_env 2 2048, OutWrite ready_env 1 4096] adev_open
          = api_run [InRead read_env 2 2048, OutWrite ready_env 1 4096] opened"
    by (simp add: opened_def)
  also have "\<dots> = Some s'"
    using rd wr by (simp add: result_state_def)
  finally show ?thesis using s' by simp
qed

text \<open>
  Claim C1, amended. A single activation negotiation forces the opposite-direction
  stream through standby, closing its hardware handle, and then starts it again. When
  both handles open ready and the mutexes the negotiation takes are free, it completes,
  and then: after \<open>out_write\<close> has left standby while a non-standby input was
  registered, the output is registered, holds its new handle and is out of standby, and
  the input is registered again, holds a new handle and is out of standby; after
  \<open>in_read\<close> has left standby while a non-standby output was registered, the input is
  registered, holds its new handle and is out of standby, and the output is registered
  again, holds a new handle and is out of standby. In both cases the trace shows the
  close of the other stream's old handle, then the two opens. So both directions are
  non-standby when the negotiation completes.
\<close>

theorem negotiation_restarts_opposite:
  "(active_in (dev s) = Some i \<and> \<not> standby_i (ins s i)
      \<and> pcm_open (ow_start_out wenv) = PcmReady h
      \<and> pcm_open (ow_start_in wenv) = PcmReady h'
      \<and> halted s = None \<and> \<not> lock_d (dev s) \<and> \<not> lock_i (ins s i) \<longrightarrow>
      snd (out_write_exit_standby wenv p s) = 0
      \<and> halted (fst (out_write_exit_standby wenv p s)) = None
      \<and> \<not> standby_o (outs (fst (out_write_exit_standby wenv p s)) p)
      \<and> \<not> standby_i (ins (fst (out_write_exit_standby wenv p s)) i)
      \<and> active_out (dev (fst (out_write_exit_standby wenv p s))) = Some p
      \<and> active_in (dev (fst (out_write_exit_standby wenv p s))) = Some i
      \<and> pcm_o (outs (fst (out_write_exit_standby wenv p s)) p) = Some h
      \<and> pcm_i (ins (fst (out_write_exit_standby wenv p s)) i) = Some h'
      \<and> (\<exists>mid post. events (fst (out_write_exit_standby wenv p s))
             = events s @ [PcmClose (pcm_i (ins s i))] @ mid
                 @ [PcmOpenOut h True, PcmOpenIn h' True] @ post))
   \<and> (active_out (dev s) = Some q \<and> \<not> standby_o (outs s q)
      \<and> pcm_open (ir_start_out renv) = PcmReady k'
      \<and> pcm_open (ir_start_in renv) = PcmReady k
      \<and> halted s = None \<and> \<not> lock_d (dev s) \<and> \<not> lock_o (outs s q) \<longrightarrow>
      snd (in_read_exit_standby renv r s) = 0
      \<and> halted (fst (in_read_exit_standby renv r s)) = None
      \<and> \<not> standby_o (outs (fst (in_read_exit_standby renv r s)) q)
      \<and> \<not> standby_i (ins (fst (in_read_exit_standby renv r s)) r)
      \<and> active_out (dev (fst (in_read_exit_standby renv r s))) = Some q
      \<and> active_in (dev (fst (in_read_exit_standby renv r s))) = Some r
      \<and> pcm_o (outs (fst (in_read_exit_standby renv r s)) q) = Some k'
      \<and> pcm_i (ins (fst (in_read_exit_standby renv r s)) r) = Some k
      \<and> (\<exists>mid post. events (fst (in_read_exit_standby renv r s))
             = events s @ [PcmClose (pcm_o (outs s q))] @ mid
                 @ [PcmOpenOut k' True, PcmOpenIn k True] @ post))"
proof -
  have a: "active_in (dev s) = Some i \<and> \<not> standby_i (ins s i)
      \<and> pcm_open (ow_start_out wenv) = PcmReady h
      \<and> pcm_open (ow_start_in wenv) = PcmReady h'
      \<and> halted s = None \<and> \<not> lock_d (dev s) \<and> \<not> lock_i (ins s i) \<longrightarrow>
      snd (out_write_exit_standby wenv p s) = 0
      \<and> halted (fst (out_write_exit_standby wenv p s)) = None
      \<and> \<not> standby_o (outs (fst (out_write_exit_standby wenv p s)) p)
      \<and> \<not> standby_i (ins (fst (out_write_exit_standby wenv p s)) i)
      \<and> active_out (dev (fst (out_write_exit_standby wenv p s))) = Some p
      \<and> active_in (dev (fst (out_write_exit_standby wenv p s))) = Some i
      \<and> pcm_o (outs (fst (out_write_exit_standby wenv p s)) p) = Some h
      \<and> pcm_i (ins (fst (out_write_exit_standby wenv p s)) i) = Some h'
      \<and> (\<exists>mid post. events (fst (out_write_exit_standby wenv p s))
             = events s @ [PcmClose (pcm_i (ins s i))] @ mid
                 @ [PcmOpenOut h True, PcmOpenIn h' True] @ post)"
    using out_write_exit_standby_restarts_input [of s i wenv h h' p] by simp
  have b: "active_out (dev s) = Some q \<and> \<not> standby_o (outs s q)
      \<and> pcm_open (ir_start_out renv) = PcmReady k'
      \<and> pcm_open (ir_start_in renv) = PcmReady k
      \<and> halted s = None \<and> \<not> lock_d (dev s) \<and> \<not> lock_o (outs s q) \<longrightarrow>
      snd (in_read_exit_standby renv r s) = 0
      \<and> halted (fst (in_read_exit_standby renv r s)) = None
      \<and> \<not> standby_o (outs (fst (in_read_exit_standby renv r s)) q)
      \<and> \<not> standby_i (ins (fst (in_read_exit_standby renv r s)) r)
      \<and> active_out (dev (fst (in_read_exit_standby renv r s))) = Some q
      \<and> active_in (dev (fst (in_read_exit_standby renv r s))) = Some r
      \<and> pcm_o (outs (fst (in_read_exit_standby renv r s)) q) = Some k'
      \<and> pcm_i (ins (fst (in_read_exit_standby renv r s)) r) = Some k
      \<and> (\<exists>mid post. events (fst (in_read_exit_standby renv r s))
             = events s @ [PcmClose (pcm_o (outs s q))] @ mid
                 @ [PcmOpenOut k' True, PcmOpenIn k True] @ post)"
    using in_read_exit_standby_restarts_output [of s q renv k' k r] by simp
  show ?thesis by (rule conjI [OF a b])
qed

lemma capturing_active:
  "active_in (dev capturing) = Some 2 \<and> \<not> standby_i (ins capturing 2)
   \<and> halted capturing = None \<and> \<not> lock_d (dev capturing) \<and> \<not> lock_i (ins capturing 2)"
  by (simp add: capturing_def start_input_stream_def Let_def upd_in_def upd_dev_def emit_def
      opened_fields zero_in_def)

lemma started_active:
  "active_out (dev started) = Some 1 \<and> \<not> standby_o (outs started 1)
   \<and> halted started = None \<and> \<not> lock_d (dev started) \<and> \<not> lock_o (outs started 1)"
  by code_simp

theorem negotiation_restarts_opposite_witness:
  "active_in (dev capturing) = Some 2 \<and> \<not> standby_i (ins capturing 2)
   \<and> pcm_open (ow_start_out ready_env) = PcmReady 7
   \<and> pcm_open (ow_start_in ready_env) = PcmReady 8
   \<and> halted capturing = None \<and> \<not> lock_d (dev capturing) \<and> \<not> lock_i (ins capturing 2)
   \<and> halted (fst (out_write_exit_standby ready_env 1 capturing)) = None
   \<and> \<not> standby_o (outs (fst (out_write_exit_standby ready_env 1 capturing)) 1)
   \<and> \<not> standby_i (ins (fst (out_write_exit_standby ready_env 1 capturing)) 2)
   \<and> pcm_o (outs (fst (out_write_exit_standby ready_env 1 capturing)) 1) = Some 7
   \<and> pcm_i (ins (fst (out_write_exit_standby ready_env 1 capturing)) 2) = Some 8
   \<and> active_out (dev started) = Some 1 \<and> \<not> standby_o (outs started 1)
   \<and> pcm_open (ir_start_out read_env) = PcmReady 10
   \<and> pcm_open (ir_start_in read_env) = PcmReady 5
   \<and> halted started = None \<and> \<not> lock_d (dev started) \<and> \<not> lock_o (outs started 1)
   \<and> halted (fst (in_read_exit_standby read_env 2 started)) = None
   \<and> \<not> standby_o (outs (fst (in_read_exit_standby read_env 2 started)) 1)
   \<and> \<not> standby_i (ins (fst (in_read_exit_standby read_env 2 started)) 2)
   \<and> pcm_o (outs (fst (in_read_exit_standby read_env 2 started)) 1) = Some 10
   \<and> pcm_i (ins (fst (in_read_exit_standby read_env 2 started)) 2) = Some 5"
proof -
  have e: "pcm_open (ow_start_out ready_env) = PcmReady 7"
    "pcm_open (ow_start_in ready_env) = PcmReady 8"
    "pcm_open (ir_start_out read_env) = PcmReady 10"
    "pcm_open (ir_start_in read_env) = PcmReady 5"
    by (simp_all add: ready_env_def read_env_def)
  have c: "active_in (dev capturing) = Some 2" "\<not> standby_i (ins capturing 2)"
    "halted capturing = None" "\<not> lock_d (dev capturing)" "\<not> lock_i (ins capturing 2)"
    using capturing_active by simp_all
  have d: "active_out (dev started) = Some 1" "\<not> standby_o (outs started 1)"
    "halted started = None" "\<not> lock_d (dev started)" "\<not> lock_o (outs started 1)"
    using started_active by simp_all
  note x = negotiation_restarts_opposite [where s = capturing and i = 2 and wenv = ready_env
        and h = 7 and h' = 8 and p = 1 and q = 1 and renv = read_env and k = 5 and k' = 10
        and r = 2, THEN conjunct1]
  note y = negotiation_restarts_opposite [where s = started and i = 2 and wenv = ready_env
        and h = 7 and h' = 8 and p = 1 and q = 1 and renv = read_env and k = 5 and k' = 10
        and r = 2, THEN conjunct2]
  have a: "halted (fst (out_write_exit_standby ready_env 1 capturing)) = None"
    "\<not> standby_o (outs (fst (out_write_exit_standby ready_env 1 capturing)) 1)"
    "\<not> standby_i (ins (fst (out_write_exit_standby ready_env 1 capturing)) 2)"
    "pcm_o (outs (fst (out_write_exit_standby ready_env 1 capturing)) 1) = Some 7"
    "pcm_i (ins (fst (out_write_exit_standby ready_env 1 capturing)) 2) = Some 8"
    using x c e(1,2) by blast+
  have b: "halted (fst (in_read_exit_standby read_env 2 started)) = None"
    "\<not> standby_o (outs (fst (in_read_exit_standby read_env 2 started)) 1)"
    "\<not> standby_i (ins (fst (in_read_exit_standby read_env 2 started)) 2)"
    "pcm_o (outs (fst (in_read_exit_standby read_env 2 started)) 1) = Some 10"
    "pcm_i (ins (fst (in_read_exit_standby read_env 2 started)) 2) = Some 5"
    using y d e(3,4) by blast+
  show ?thesis using a b c d e by blast
qed

subsection \<open>Output streams and the hardware rate\<close>

lemma out_get_sample_rate_val: "out_get_sample_rate = 44100"
  by (simp add: out_get_sample_rate_def pcm_config_out_def OUT_SAMPLING_RATE_def)

lemma start_output_stream_allocates_nothing:
  "buffer_frames (outs (fst (start_output_stream env p s)) q) = buffer_frames (outs s q)
   \<and> resampler_o (outs (fst (start_output_stream env p s)) q) = resampler_o (outs s q)
   \<and> buffer_o (outs (fst (start_output_stream env p s)) q) = buffer_o (outs s q)
   \<and> (\<exists>h. events (fst (start_output_stream env p s)) = events s @ [PcmOpenOut h True]
          \<or> events (fst (start_output_stream env p s))
               = events s @ [PcmOpenOut h False, PcmClose (Some h)])"
  by (cases "pcm_open env")
     (simp_all add: start_output_stream_def out_get_sample_rate_def Let_def upd_out_def
        upd_dev_def emit_def)

lemma adev_open_output_stream_rate:
  "sample_rate config \<noteq> 44100 \<Longrightarrow>
     snd (snd (snd (adev_open_output_stream (Some a) config s))) = - EINVAL
     \<and> fst (snd (snd (adev_open_output_stream (Some a) config s))) = None
     \<and> sample_rate (fst (snd (adev_open_output_stream (Some a) config s))) = 44100"
  by (simp add: adev_open_output_stream_def Let_def)

text \<open>
  Claim C5, as stated, fails: a request for an output stream at 48000 Hz is rejected
  with \<open>-EINVAL\<close> (the rate handed back is 44100), so no stream with that rate ever
  becomes active; and when the stream that can be opened becomes active, no conversion
  buffer is sized: its frame count stays 0, where the claim has 942, no buffer is
  allocated and the trace holds the open of the handle only.
\<close>

theorem conversion_buffer_counterexample:
  "sample_rate hi_config = 48000
   \<and> snd (snd (snd (adev_open_output_stream (Some 1) hi_config adev_open))) = - EINVAL
   \<and> fst (snd (snd (adev_open_output_stream (Some 1) hi_config adev_open))) = None
   \<and> sample_rate (fst (snd (adev_open_output_stream (Some 1) hi_config adev_open))) = 44100
   \<and> buffer_frames (outs (fst (start_output_stream
         \<lparr>pcm_open = PcmReady 7, create_resampler = Some 8, malloc = Some 9\<rparr> 1 opened)) 1) = 0
   \<and> buffer_o (outs (fst (start_output_stream
         \<lparr>pcm_open = PcmReady 7, create_resampler = Some 8, malloc = Some 9\<rparr> 1 opened)) 1) = None
   \<and> resampler_o (outs (fst (start_output_stream
         \<lparr>pcm_open = PcmReady 7, create_resampler = Some 8, malloc = Some 9\<rparr> 1 opened)) 1) = None
   \<and> events (fst (start_output_stream
         \<lparr>pcm_open = PcmReady 7, create_resampler = Some 8, malloc = Some 9\<rparr> 1 opened))
       = [PcmOpenOut 7 True]"
  by (simp add: hi_config_def adev_open_output_stream_def Let_def start_output_stream_def
      out_get_sample_rate_def upd_out_def upd_dev_def emit_def opened_fields zero_out_def)

text \<open>
  Claim C5, amended. An output stream opens at the hardware rate only: a request for
  any other rate is rejected with \<open>-EINVAL\<close>, no stream is handed out and the rate
  handed back is 44100 Hz. The rate an output stream reports is the hardware rate
  itself, so when a stream transitions to active its rate does not differ from the
  hardware rate and no conversion buffer is sized: \<open>start_output_stream\<close> leaves the
  frame count of the conversion buffer, the resampler and the buffer of every stream
  as they were, and all it adds to the trace is the open of the handle (and its close,
  should the handle not be ready).
\<close>

theorem conversion_buffer_never_sized:
  "(sample_rate config \<noteq> 44100 \<longrightarrow>
      snd (snd (snd (adev_open_output_stream (Some a) config t))) = - EINVAL
      \<and> fst (snd (snd (adev_open_output_stream (Some a) config t))) = None
      \<and> sample_rate (fst (snd (adev_open_output_stream (Some a) config t))) = 44100)
   \<and> out_get_sample_rate = rate pcm_config_out
   \<and> buffer_frames (outs (fst (start_output_stream env p s)) q) = buffer_frames (outs s q)
   \<and> resampler_o (outs (fst (start_output_stream env p s)) q) = resampler_o (outs s q)
   \<and> buffer_o (outs (fst (start_output_stream env p s)) q) = buffer_o (outs s q)
   \<and> (\<exists>h. events (fst (start_output_stream env p s)) = events s @ [PcmOpenOut h True]
          \<or> events (fst (start_output_stream env p s))
               = events s @ [PcmOpenOut h False, PcmClose (Some h)])"
  using adev_open_output_stream_rate [of config a t]
    start_output_stream_allocates_nothing [of env p s q]
  by (simp add: out_get_sample_rate_def)

theorem conversion_buffer_never_sized_witness:
  "sample_rate hi_config \<noteq> 44100
   \<and> snd (snd (snd (adev_open_output_stream (Some 1) hi_config adev_open))) = - EINVAL
   \<and> fst (snd (snd (adev_open_output_stream (Some 1) hi_config adev_open))) = None
   \<and> sample_rate (fst (snd (adev_open_output_stream (Some 1) hi_config adev_open))) = 44100
   \<and> buffer_frames (outs (fst (start_output_stream (ow_start_out ready_env) 1 opened)) 1)
       = buffer_frames (outs opened 1)"
proof -
  note t = conversion_buffer_never_sized [where config = hi_config and a = 1
      and t = adev_open and env = "ow_start_out ready_env" and p = 1 and s = opened and q = 1]
  have h: "sample_rate hi_config \<noteq> 44100" by (simp add: hi_config_def)
  show ?thesis using t h by blast
qed

text \<open>
  The sizing expression of the branch that is never taken, at a divisor of 48000: the
  division truncates.
\<close>

lemma out_buffer_frames_truncates: "out_buffer_frames 1024 44100 48000 = 941"
  by (simp add: out_buffer_frames_def u32_def)

end
